theory Spec2Isabelle
  imports Main "HOL-Library.Word" "HOL-Library.Sublist"
begin

section \<open>The image opener of tsk3/img/img_open.c\<close>

text \<open>
  The file holds the dispatcher \<open>tsk_img_open\<close>, its UTF-8 entry point
  \<open>tsk_img_open_utf8\<close>, the two single-path wrappers and \<open>tsk_img_close\<close>.
  The format backends (\<open>aff_open\<close>, \<open>ewf_open\<close>, \<open>raw_open\<close>,
  \<open>split_open\<close>), the stat call, the UTF-8 converter and the allocator are
  declared in headers and live in other files; they are parameters of the model.
  The preprocessor switches and the constants of those headers are parameters as
  well. Output on stderr under \<open>tsk_verbose\<close> and the release of the
  conversion buffers are not part of the model.
\<close>

subsection \<open>Types\<close>

text \<open>
  \<open>TSK_IMG_TYPE_ENUM\<close>: the tags that the source names, and
  \<open>TSK_IMG_TYPE_OTHER\<close> for every other value a caller can pass in the enum's
  integer type.
\<close>

datatype TSK_IMG_TYPE_ENUM =
    TSK_IMG_TYPE_DETECT
  | TSK_IMG_TYPE_RAW_SING
  | TSK_IMG_TYPE_RAW_SPLIT
  | TSK_IMG_TYPE_AFF_AFF
  | TSK_IMG_TYPE_AFF_AFD
  | TSK_IMG_TYPE_AFF_AFM
  | TSK_IMG_TYPE_AFF_ANY
  | TSK_IMG_TYPE_EWF_EWF
  | TSK_IMG_TYPE_OTHER int

text \<open>
  The values of \<open>tsk_errno\<close>. \<open>TSK_ERR_NONE\<close> is 0, the value that
  \<open>if (tsk_errno)\<close> takes for "no error"; the codes that the file assigns are
  distinct nonzero macros, and \<open>TSK_ERR_OTHER\<close> stands for any other nonzero code
  a backend may leave behind.
\<close>

datatype tsk_err =
    TSK_ERR_NONE
  | TSK_ERR_IMG_NOFILE
  | TSK_ERR_IMG_ARG
  | TSK_ERR_IMG_UNKTYPE
  | TSK_ERR_IMG_UNSUPTYPE
  | TSK_ERR_IMG_STAT
  | TSK_ERR_IMG_CONVERT
  | TSK_ERR_OTHER nat

text \<open>
  An open image. Of the structure only \<open>itype\<close> is read by this file;
  \<open>img_id\<close> tells two handles of the same type apart.
\<close>

record TSK_IMG_INFO =
  img_id :: nat
  itype :: TSK_IMG_TYPE_ENUM

text \<open>The three globals of the error context.\<close>

record err_ctx =
  tsk_errno :: tsk_err
  tsk_errstr :: string
  tsk_errstr2 :: string

datatype TSKConversionResult =
    TSKconversionOK
  | TSKsourceExhausted
  | TSKtargetExhausted
  | TSKsourceIllegal

text \<open>
  What the function does to the world outside: the calls it makes, in order. A path
  array is a list of entries, each a string or the null pointer \<open>None\<close>;
  \<open>a_ssize\<close> is an \<open>unsigned int\<close>.
\<close>

type_synonym path_array = "string option list"

datatype event =
    Aff_open path_array "32 word"
  | Ewf_open int path_array "32 word"
  | Raw_open string "32 word"
  | Split_open int path_array "32 word"
  | Close TSK_IMG_INFO
  | Tstat string
  | UTF8toUTF16 string

record tsk_state =
  ctx :: err_ctx
  trace :: "event list"

text \<open>
  A backend returns a handle or null and may read and write the error context.
\<close>

type_synonym probe = "err_ctx \<Rightarrow> TSK_IMG_INFO option \<times> err_ctx"

record backends =
  aff_open :: "path_array \<Rightarrow> 32 word \<Rightarrow> probe"
  ewf_open :: "int \<Rightarrow> path_array \<Rightarrow> 32 word \<Rightarrow> probe"
  raw_open :: "string \<Rightarrow> 32 word \<Rightarrow> probe"
  split_open :: "int \<Rightarrow> path_array \<Rightarrow> 32 word \<Rightarrow> probe"
  TSTAT :: "string \<Rightarrow> int"
  strerror_errno :: "string \<Rightarrow> string"
  tsk_UTF8toUTF16 :: "string \<Rightarrow> TSKConversionResult \<times> string"
  tsk_malloc :: "nat \<Rightarrow> err_ctx \<Rightarrow> bool \<times> err_ctx"

text \<open>
  \<open>TSTAT env p\<close> is the return value of the stat call on \<open>p\<close> and
  \<open>strerror_errno env p\<close> the text of \<open>strerror(errno)\<close> after it.
  \<open>tsk_malloc env k c\<close> is the \<open>k\<close>-th allocation of a call: whether it
  returned memory, and the error context it leaves.

  The build: the preprocessor switches, the length \<open>TSK_ERRSTR_L\<close> of the
  message buffers, and the integers that \<open>%d\<close> prints for a type tag and for a
  conversion result.
\<close>

record build =
  HAVE_LIBAFFLIB :: bool
  HAVE_LIBEWF :: bool
  TSK_WIN32 :: bool
  CYGWIN :: bool
  TSK_ERRSTR_L :: nat
  type_value :: "TSK_IMG_TYPE_ENUM \<Rightarrow> int"
  conversion_value :: "TSKConversionResult \<Rightarrow> int"

subsection \<open>Formatting\<close>

definition digit_char :: "nat \<Rightarrow> char" where
  "digit_char d = ''0123456789'' ! d"

function dec_nat :: "nat \<Rightarrow> string" where
  "dec_nat n = (if n < 10 then [digit_char n] else dec_nat (n div 10) @ [digit_char (n mod 10)])"
  by pat_completeness auto
termination
  by (relation "measure id") auto

declare dec_nat.simps [simp del]

text \<open>The conversion \<open>%d\<close>.\<close>

definition print_d :: "int \<Rightarrow> string" where
  "print_d i = (if i < 0 then CHR ''-'' # dec_nat (nat (- i)) else dec_nat (nat i))"

text \<open>
  \<open>snprintf(tsk_errstr, TSK_ERRSTR_L, ...)\<close>: at most \<open>TSK_ERRSTR_L - 1\<close>
  characters of the formatted text are stored; a size of 0 stores nothing.
\<close>

definition snprintf_errstr :: "build \<Rightarrow> string \<Rightarrow> tsk_state \<Rightarrow> tsk_state" where
  "snprintf_errstr cfg msg s =
     (if TSK_ERRSTR_L cfg = 0 then s
      else s\<lparr>ctx := (ctx s)\<lparr>tsk_errstr := take (TSK_ERRSTR_L cfg - 1) msg\<rparr>\<rparr>)"

definition set_errno :: "tsk_err \<Rightarrow> tsk_state \<Rightarrow> tsk_state" where
  "set_errno e s = s\<lparr>ctx := (ctx s)\<lparr>tsk_errno := e\<rparr>\<rparr>"

text \<open>
  Modelled from the spec: \<open>tsk_error_reset\<close> is defined outside this file. The
  spec calls it the reset of the Error Context, a record of a code, a primary and a
  secondary message; the source relies on the code being 0 after it.
\<close>

definition no_error :: err_ctx where
  "no_error = \<lparr>tsk_errno = TSK_ERR_NONE, tsk_errstr = [], tsk_errstr2 = []\<rparr>"

definition tsk_error_reset :: "tsk_state \<Rightarrow> tsk_state" where
  "tsk_error_reset s = s\<lparr>ctx := no_error\<rparr>"

subsection \<open>Calls to the collaborators\<close>

definition run_probe :: "event \<Rightarrow> probe \<Rightarrow> tsk_state \<Rightarrow> TSK_IMG_INFO option \<times> tsk_state" where
  "run_probe ev p s =
     (case p (ctx s) of (r, c) \<Rightarrow> (r, \<lparr>ctx = c, trace = trace s @ [ev]\<rparr>))"

definition call_aff_open ::
  "backends \<Rightarrow> path_array \<Rightarrow> 32 word \<Rightarrow> tsk_state \<Rightarrow> TSK_IMG_INFO option \<times> tsk_state" where
  "call_aff_open env images a_ssize =
     run_probe (Aff_open images a_ssize) (aff_open env images a_ssize)"

definition call_ewf_open ::
  "backends \<Rightarrow> int \<Rightarrow> path_array \<Rightarrow> 32 word \<Rightarrow> tsk_state \<Rightarrow> TSK_IMG_INFO option \<times> tsk_state" where
  "call_ewf_open env num_img images a_ssize =
     run_probe (Ewf_open num_img images a_ssize) (ewf_open env num_img images a_ssize)"

definition call_raw_open ::
  "backends \<Rightarrow> string \<Rightarrow> 32 word \<Rightarrow> tsk_state \<Rightarrow> TSK_IMG_INFO option \<times> tsk_state" where
  "call_raw_open env a_image a_ssize =
     run_probe (Raw_open a_image a_ssize) (raw_open env a_image a_ssize)"

definition call_split_open ::
  "backends \<Rightarrow> int \<Rightarrow> path_array \<Rightarrow> 32 word \<Rightarrow> tsk_state \<Rightarrow> TSK_IMG_INFO option \<times> tsk_state" where
  "call_split_open env num_img images a_ssize =
     run_probe (Split_open num_img images a_ssize) (split_open env num_img images a_ssize)"

text \<open>\<open>img_info->close(img_info)\<close>: the handle's own release function.\<close>

definition img_close :: "TSK_IMG_INFO \<Rightarrow> tsk_state \<Rightarrow> tsk_state" where
  "img_close img_info s = s\<lparr>trace := trace s @ [Close img_info]\<rparr>"

subsection \<open>Autodetection\<close>

text \<open>
  The locals \<open>set\<close> and \<open>img_set\<close> are assigned together and are null
  together; the model keeps them as one optional pair. A result \<open>Inl\<close> is a
  \<open>return\<close> of the function, \<open>Inr\<close> falls through to the next block.
\<close>

type_synonym candidate = "(string \<times> TSK_IMG_INFO) option"

type_synonym outcome = "TSK_IMG_INFO option \<times> tsk_state"

definition detect_aff ::
  "build \<Rightarrow> backends \<Rightarrow> path_array \<Rightarrow> 32 word \<Rightarrow> tsk_state \<Rightarrow> candidate \<times> tsk_state" where
  "detect_aff cfg env images a_ssize s =
     (if HAVE_LIBAFFLIB cfg then
        (case call_aff_open env images a_ssize s of
           (Some img_info, s1) \<Rightarrow>
             if itype img_info = TSK_IMG_TYPE_AFF_ANY then (None, img_close img_info s1)
             else (Some (''AFF'', img_info), s1)
         | (None, s1) \<Rightarrow> (None, tsk_error_reset s1))
      else (None, s))"

definition detect_ewf ::
  "build \<Rightarrow> backends \<Rightarrow> int \<Rightarrow> path_array \<Rightarrow> 32 word \<Rightarrow> candidate \<times> tsk_state
     \<Rightarrow> outcome + candidate \<times> tsk_state" where
  "detect_ewf cfg env num_img images a_ssize cs =
     (case cs of (cand, s) \<Rightarrow>
        if HAVE_LIBEWF cfg then
          (case call_ewf_open env num_img images a_ssize s of
             (Some img_info, s1) \<Rightarrow>
               (case cand of
                  None \<Rightarrow> Inr (Some (''EWF'', img_info), s1)
                | Some (set_name, img_set) \<Rightarrow>
                    Inl (None,
                      snprintf_errstr cfg (''EWF or '' @ set_name)
                        (set_errno TSK_ERR_IMG_UNKTYPE
                          (tsk_error_reset (img_close img_info (img_close img_set s1))))))
           | (None, s1) \<Rightarrow> Inr (cand, tsk_error_reset s1))
        else Inr (cand, s))"

definition detect_raw ::
  "backends \<Rightarrow> int \<Rightarrow> path_array \<Rightarrow> string \<Rightarrow> 32 word \<Rightarrow> tsk_state \<Rightarrow> outcome + tsk_state" where
  "detect_raw env num_img images image0 a_ssize s =
     (if num_img = 1 then
        (case call_raw_open env image0 a_ssize s of
           (Some img_info, s1) \<Rightarrow> Inl (Some img_info, s1)
         | (None, s1) \<Rightarrow>
             if tsk_errno (ctx s1) \<noteq> TSK_ERR_NONE then Inl (None, s1) else Inr s1)
      else
        (case call_split_open env num_img images a_ssize s of
           (Some img_info, s1) \<Rightarrow> Inl (Some img_info, s1)
         | (None, s1) \<Rightarrow>
             if tsk_errno (ctx s1) \<noteq> TSK_ERR_NONE then Inl (None, s1) else Inr s1))"

text \<open>
  \<open>TSTRNCMP(a, b, n) == 0\<close> on strings without an inner terminator: the first
  \<open>n\<close> characters agree.
\<close>

definition TSTRNCMP_eq :: "string \<Rightarrow> string \<Rightarrow> nat \<Rightarrow> bool" where
  "TSTRNCMP_eq a b n = (take n a = take n b)"

definition windows_object_prefix :: string where
  "windows_object_prefix = [CHR 0x5C, CHR 0x5C, CHR ''.'', CHR 0x5C]"

definition detect_stat :: "build \<Rightarrow> backends \<Rightarrow> string \<Rightarrow> tsk_state \<Rightarrow> outcome" where
  "detect_stat cfg env image0 s =
     (let s1 = s\<lparr>trace := trace s @ [Tstat image0]\<rparr> in
      if TSTAT env image0 < 0
         \<and> \<not> ((TSK_WIN32 cfg \<or> CYGWIN cfg) \<and> TSTRNCMP_eq windows_object_prefix image0 4)
      then
        (None,
          snprintf_errstr cfg (image0 @ '' : '' @ strerror_errno env image0)
            (set_errno TSK_ERR_IMG_STAT (tsk_error_reset s1)))
      else
        (None, s1\<lparr>ctx := \<lparr>tsk_errno = TSK_ERR_IMG_UNKTYPE, tsk_errstr = [], tsk_errstr2 = []\<rparr>\<rparr>))"

definition detect ::
  "build \<Rightarrow> backends \<Rightarrow> int \<Rightarrow> path_array \<Rightarrow> string \<Rightarrow> 32 word \<Rightarrow> tsk_state \<Rightarrow> outcome" where
  "detect cfg env num_img images image0 a_ssize s =
     (case detect_ewf cfg env num_img images a_ssize
             (detect_aff cfg env images a_ssize (tsk_error_reset s)) of
        Inl r \<Rightarrow> r
      | Inr (Some (set_name, img_set), s2) \<Rightarrow> (Some img_set, s2)
      | Inr (None, s2) \<Rightarrow>
          (case detect_raw env num_img images image0 a_ssize s2 of
             Inl r \<Rightarrow> r
           | Inr s3 \<Rightarrow> detect_stat cfg env image0 s3))"

subsection \<open>Explicit types\<close>

definition open_typed ::
  "build \<Rightarrow> backends \<Rightarrow> int \<Rightarrow> path_array \<Rightarrow> string \<Rightarrow> TSK_IMG_TYPE_ENUM \<Rightarrow> 32 word
     \<Rightarrow> tsk_state \<Rightarrow> outcome" where
  "open_typed cfg env num_img images image0 type a_ssize s =
     (if type = TSK_IMG_TYPE_RAW_SING then
        (if num_img > 1 then call_split_open env num_img images a_ssize s
         else call_raw_open env image0 a_ssize s)
      else if type = TSK_IMG_TYPE_RAW_SPLIT then
        (if num_img = 1 then call_raw_open env image0 a_ssize s
         else call_split_open env num_img images a_ssize s)
      else if HAVE_LIBAFFLIB cfg
           \<and> type \<in> {TSK_IMG_TYPE_AFF_AFF, TSK_IMG_TYPE_AFF_AFD, TSK_IMG_TYPE_AFF_AFM,
                      TSK_IMG_TYPE_AFF_ANY} then
        call_aff_open env images a_ssize s
      else if HAVE_LIBEWF cfg \<and> type = TSK_IMG_TYPE_EWF_EWF then
        call_ewf_open env num_img images a_ssize s
      else
        (None,
          snprintf_errstr cfg (print_d (type_value cfg type))
            (set_errno TSK_ERR_IMG_UNSUPTYPE (tsk_error_reset s))))"

subsection \<open>The dispatcher\<close>

text \<open>
  \<open>num_img\<close> is the number of entries of \<open>images\<close>, as the function's
  contract requires of its caller; the only entry the function reads itself is
  \<open>images[0]\<close>, and only when \<open>num_img\<close> is not 0.
\<close>

definition tsk_img_open ::
  "build \<Rightarrow> backends \<Rightarrow> path_array \<Rightarrow> TSK_IMG_TYPE_ENUM \<Rightarrow> 32 word \<Rightarrow> tsk_state \<Rightarrow> outcome" where
  "tsk_img_open cfg env images type a_ssize s0 =
     (let s = tsk_error_reset s0;
          num_img = int (length images);
          nofile = (None, snprintf_errstr cfg ''tsk_img_open''
                            (set_errno TSK_ERR_IMG_NOFILE (tsk_error_reset s)))
      in case images of
           [] \<Rightarrow> nofile
         | None # _ \<Rightarrow> nofile
         | Some image0 # _ \<Rightarrow>
             if 0 < a_ssize \<and> a_ssize < 512 then
               (None,
                 snprintf_errstr cfg
                   (''sector size is less than 512 bytes ('' @ print_d (sint a_ssize) @ '')'')
                   (set_errno TSK_ERR_IMG_ARG (tsk_error_reset s)))
             else if a_ssize mod 512 \<noteq> 0 then
               (None,
                 snprintf_errstr cfg
                   (''sector size is not a multiple of 512 ('' @ print_d (sint a_ssize) @ '')'')
                   (set_errno TSK_ERR_IMG_ARG (tsk_error_reset s)))
             else if type = TSK_IMG_TYPE_DETECT then
               detect cfg env num_img images image0 a_ssize s
             else
               open_typed cfg env num_img images image0 type a_ssize s)"

definition tsk_img_open_sing ::
  "build \<Rightarrow> backends \<Rightarrow> string option \<Rightarrow> TSK_IMG_TYPE_ENUM \<Rightarrow> 32 word \<Rightarrow> tsk_state \<Rightarrow> outcome" where
  "tsk_img_open_sing cfg env a_image type a_ssize s =
     tsk_img_open cfg env [a_image] type a_ssize s"

definition tsk_img_close :: "TSK_IMG_INFO option \<Rightarrow> tsk_state \<Rightarrow> tsk_state" where
  "tsk_img_close a_img_info s =
     (case a_img_info of None \<Rightarrow> s | Some img_info \<Rightarrow> img_close img_info s)"

subsection \<open>The UTF-8 entry point\<close>

text \<open>
  The conversion loop of the \<open>TSK_WIN32\<close> build, from index \<open>i\<close> on, with the
  paths converted so far. \<open>strlen\<close> of a null entry has no defined behaviour: the
  result is \<open>None\<close>. Otherwise the result is the array of converted paths, or no
  array when the loop left for \<open>tsk_utf8_cleanup\<close>.
\<close>

fun utf8_loop ::
  "build \<Rightarrow> backends \<Rightarrow> nat \<Rightarrow> path_array \<Rightarrow> string list \<Rightarrow> tsk_state
     \<Rightarrow> (string list option \<times> tsk_state) option" where
  "utf8_loop cfg env i [] images16 s = Some (Some images16, s)"
| "utf8_loop cfg env i (None # rest) images16 s = None"
| "utf8_loop cfg env i (Some a_image # rest) images16 s =
     (case tsk_malloc env (Suc i) (ctx s) of
        (False, c) \<Rightarrow> Some (None, s\<lparr>ctx := c\<rparr>)
      | (True, c) \<Rightarrow>
          (let s1 = \<lparr>ctx = c, trace = trace s @ [UTF8toUTF16 a_image]\<rparr> in
           case tsk_UTF8toUTF16 env a_image of
             (retval2, image16) \<Rightarrow>
               if retval2 \<noteq> TSKconversionOK then
                 Some (None,
                   snprintf_errstr cfg
                     (''tsk_img_open_utf8: Error converting image '' @ a_image @ '' ''
                        @ print_d (conversion_value cfg retval2))
                     (set_errno TSK_ERR_IMG_CONVERT s1))
               else utf8_loop cfg env (Suc i) rest (images16 @ [image16]) s1))"

definition tsk_img_open_utf8 ::
  "build \<Rightarrow> backends \<Rightarrow> path_array \<Rightarrow> TSK_IMG_TYPE_ENUM \<Rightarrow> 32 word \<Rightarrow> tsk_state
     \<Rightarrow> outcome option" where
  "tsk_img_open_utf8 cfg env images type a_ssize s =
     (if TSK_WIN32 cfg then
        (case tsk_malloc env 0 (ctx s) of
           (False, c) \<Rightarrow> Some (None, s\<lparr>ctx := c\<rparr>)
         | (True, c) \<Rightarrow>
             (case utf8_loop cfg env 0 images [] (s\<lparr>ctx := c\<rparr>) of
                None \<Rightarrow> None
              | Some (None, s1) \<Rightarrow> Some (None, s1)
              | Some (Some images16, s1) \<Rightarrow>
                  Some (tsk_img_open cfg env (map Some images16) type a_ssize s1)))
      else Some (tsk_img_open cfg env images type a_ssize s))"

definition tsk_img_open_utf8_sing ::
  "build \<Rightarrow> backends \<Rightarrow> string option \<Rightarrow> TSK_IMG_TYPE_ENUM \<Rightarrow> 32 word \<Rightarrow> tsk_state
     \<Rightarrow> outcome option" where
  "tsk_img_open_utf8_sing cfg env a_image type a_ssize s =
     tsk_img_open_utf8 cfg env [a_image] type a_ssize s"

subsection \<open>Auxiliary definitions for the statements\<close>

text \<open>
  The first collaborator that autodetection calls, which depends on the build and on
  the number of paths.
\<close>

definition first_probe :: "build \<Rightarrow> int \<Rightarrow> path_array \<Rightarrow> string \<Rightarrow> 32 word \<Rightarrow> event" where
  "first_probe cfg num_img images image0 a_ssize =
     (if HAVE_LIBAFFLIB cfg then Aff_open images a_ssize
      else if HAVE_LIBEWF cfg then Ewf_open num_img images a_ssize
      else if num_img = 1 then Raw_open image0 a_ssize
      else Split_open num_img images a_ssize)"

text \<open>
  A probe that declines like this backend but leaves the error context as it found it.
\<close>

definition silent :: probe where
  "silent c = (None, c)"

text \<open>
  Concrete builds and collaborators for the examples. \<open>sample_build\<close> has both
  libraries and a message buffer of 512 characters; \<open>sample_probe r e\<close> returns
  \<open>r\<close> and, when \<open>e\<close> is an error code, reports it.
\<close>

definition sample_build :: build where
  "sample_build =
     \<lparr>HAVE_LIBAFFLIB = True, HAVE_LIBEWF = True, TSK_WIN32 = False, CYGWIN = False,
      TSK_ERRSTR_L = 512,
      type_value = (\<lambda>t. case t of
          TSK_IMG_TYPE_DETECT \<Rightarrow> 0 | TSK_IMG_TYPE_RAW_SING \<Rightarrow> 1 | TSK_IMG_TYPE_RAW_SPLIT \<Rightarrow> 2
        | TSK_IMG_TYPE_AFF_AFF \<Rightarrow> 4 | TSK_IMG_TYPE_AFF_AFD \<Rightarrow> 8 | TSK_IMG_TYPE_AFF_AFM \<Rightarrow> 16
        | TSK_IMG_TYPE_AFF_ANY \<Rightarrow> 32 | TSK_IMG_TYPE_EWF_EWF \<Rightarrow> 64
        | TSK_IMG_TYPE_OTHER v \<Rightarrow> v),
      conversion_value = (\<lambda>r. case r of
          TSKconversionOK \<Rightarrow> 0 | TSKsourceExhausted \<Rightarrow> 1
        | TSKtargetExhausted \<Rightarrow> 2 | TSKsourceIllegal \<Rightarrow> 3)\<rparr>"

definition sample_probe :: "TSK_IMG_INFO option \<Rightarrow> tsk_err \<Rightarrow> probe" where
  "sample_probe r e c =
     (r, if e = TSK_ERR_NONE then c
         else c\<lparr>tsk_errno := e, tsk_errstr := ''backend failure''\<rparr>)"

definition sample_backends :: "probe \<Rightarrow> probe \<Rightarrow> probe \<Rightarrow> probe \<Rightarrow> int \<Rightarrow> backends" where
  "sample_backends aff ewf raw split st =
     \<lparr>aff_open = (\<lambda>images a_ssize. aff),
      ewf_open = (\<lambda>num_img images a_ssize. ewf),
      raw_open = (\<lambda>a_image a_ssize. raw),
      split_open = (\<lambda>num_img images a_ssize. split),
      TSTAT = (\<lambda>p. st),
      strerror_errno = (\<lambda>p. ''No such file or directory''),
      tsk_UTF8toUTF16 = (\<lambda>p. if CHR 0xFF \<in> set p then (TSKsourceIllegal, []) else (TSKconversionOK, p)),
      tsk_malloc = (\<lambda>k c. (True, c))\<rparr>"

definition start_state :: tsk_state where
  "start_state = \<lparr>ctx = no_error, trace = []\<rparr>"

definition h_aff :: TSK_IMG_INFO where
  "h_aff = \<lparr>img_id = 1, itype = TSK_IMG_TYPE_AFF_AFF\<rparr>"

definition h_any :: TSK_IMG_INFO where
  "h_any = \<lparr>img_id = 2, itype = TSK_IMG_TYPE_AFF_ANY\<rparr>"

definition h_ewf :: TSK_IMG_INFO where
  "h_ewf = \<lparr>img_id = 3, itype = TSK_IMG_TYPE_EWF_EWF\<rparr>"

definition h_raw :: TSK_IMG_INFO where
  "h_raw = \<lparr>img_id = 4, itype = TSK_IMG_TYPE_RAW_SING\<rparr>"

definition h_split :: TSK_IMG_INFO where
  "h_split = \<lparr>img_id = 5, itype = TSK_IMG_TYPE_RAW_SPLIT\<rparr>"

text \<open>The calls of the raw and of the split backend.\<close>

fun is_raw_or_split :: "event \<Rightarrow> bool" where
  "is_raw_or_split (Raw_open a_image a_ssize) = True"
| "is_raw_or_split (Split_open num_img images a_ssize) = True"
| "is_raw_or_split ev = False"

text \<open>The same state after a longer history of calls.\<close>

definition prepend_trace :: "event list \<Rightarrow> tsk_state \<Rightarrow> tsk_state" where
  "prepend_trace evs s = s\<lparr>trace := evs @ trace s\<rparr>"

text \<open>The part of \<open>detect\<close> that follows the AFF block.\<close>

definition detect_after_aff ::
  "build \<Rightarrow> backends \<Rightarrow> int \<Rightarrow> path_array \<Rightarrow> string \<Rightarrow> 32 word \<Rightarrow> candidate \<times> tsk_state
     \<Rightarrow> outcome" where
  "detect_after_aff cfg env num_img images image0 a_ssize cs =
     (case detect_ewf cfg env num_img images a_ssize cs of
        Inl r \<Rightarrow> r
      | Inr (Some (set_name, img_set), s2) \<Rightarrow> (Some img_set, s2)
      | Inr (None, s2) \<Rightarrow>
          (case detect_raw env num_img images image0 a_ssize s2 of
             Inl r \<Rightarrow> r
           | Inr s3 \<Rightarrow> detect_stat cfg env image0 s3))"

section \<open>Properties\<close>

subsection \<open>The blocks of the autodetection, case by case\<close>

lemmas state_defs = snprintf_errstr_def set_errno_def tsk_error_reset_def img_close_def

lemmas call_defs =
  run_probe_def call_aff_open_def call_ewf_open_def call_raw_open_def call_split_open_def

lemmas sample_defs =
  sample_build_def sample_probe_def sample_backends_def start_state_def silent_def
  h_aff_def h_any_def h_ewf_def h_raw_def h_split_def no_error_def

lemma detect_aff_absent:
  "\<not> HAVE_LIBAFFLIB cfg \<Longrightarrow> detect_aff cfg env images a s = (None, s)"
  by (simp add: detect_aff_def)

lemma detect_aff_declined:
  "HAVE_LIBAFFLIB cfg \<Longrightarrow> aff_open env images a (ctx s) = (None, c) \<Longrightarrow>
   detect_aff cfg env images a s
     = (None, \<lparr>ctx = no_error, trace = trace s @ [Aff_open images a]\<rparr>)"
  by (simp add: detect_aff_def call_defs state_defs)

lemma detect_aff_any:
  "HAVE_LIBAFFLIB cfg \<Longrightarrow> aff_open env images a (ctx s) = (Some h, c) \<Longrightarrow>
   itype h = TSK_IMG_TYPE_AFF_ANY \<Longrightarrow>
   detect_aff cfg env images a s
     = (None, \<lparr>ctx = c, trace = trace s @ [Aff_open images a, Close h]\<rparr>)"
  by (simp add: detect_aff_def call_defs state_defs)

lemma detect_aff_match:
  "HAVE_LIBAFFLIB cfg \<Longrightarrow> aff_open env images a (ctx s) = (Some h, c) \<Longrightarrow>
   itype h \<noteq> TSK_IMG_TYPE_AFF_ANY \<Longrightarrow>
   detect_aff cfg env images a s
     = (Some (''AFF'', h), \<lparr>ctx = c, trace = trace s @ [Aff_open images a]\<rparr>)"
  by (simp add: detect_aff_def call_defs state_defs)

lemma detect_ewf_absent:
  "\<not> HAVE_LIBEWF cfg \<Longrightarrow> detect_ewf cfg env n images a (cand, s) = Inr (cand, s)"
  by (simp add: detect_ewf_def)

lemma detect_ewf_declined:
  "HAVE_LIBEWF cfg \<Longrightarrow> ewf_open env n images a (ctx s) = (None, c) \<Longrightarrow>
   detect_ewf cfg env n images a (cand, s)
     = Inr (cand, \<lparr>ctx = no_error, trace = trace s @ [Ewf_open n images a]\<rparr>)"
  by (simp add: detect_ewf_def call_defs state_defs)

lemma detect_ewf_first:
  "HAVE_LIBEWF cfg \<Longrightarrow> ewf_open env n images a (ctx s) = (Some h, c) \<Longrightarrow>
   detect_ewf cfg env n images a (None, s)
     = Inr (Some (''EWF'', h), \<lparr>ctx = c, trace = trace s @ [Ewf_open n images a]\<rparr>)"
  by (simp add: detect_ewf_def call_defs state_defs)

lemma detect_ewf_second:
  "HAVE_LIBEWF cfg \<Longrightarrow> ewf_open env n images a (ctx s) = (Some h, c) \<Longrightarrow>
   detect_ewf cfg env n images a (Some (nm, h0), s)
     = Inl (None,
         snprintf_errstr cfg (''EWF or '' @ nm)
           \<lparr>ctx = \<lparr>tsk_errno = TSK_ERR_IMG_UNKTYPE, tsk_errstr = [], tsk_errstr2 = []\<rparr>,
            trace = trace s @ [Ewf_open n images a, Close h0, Close h]\<rparr>)"
  by (simp add: detect_ewf_def call_defs state_defs no_error_def)

lemma detect_raw_single_opened:
  "n = 1 \<Longrightarrow> raw_open env image0 a (ctx s) = (Some h, c) \<Longrightarrow>
   detect_raw env n images image0 a s
     = Inl (Some h, \<lparr>ctx = c, trace = trace s @ [Raw_open image0 a]\<rparr>)"
  by (simp add: detect_raw_def call_defs)

lemma detect_raw_single_null:
  "n = 1 \<Longrightarrow> raw_open env image0 a (ctx s) = (None, c) \<Longrightarrow>
   detect_raw env n images image0 a s
     = (if tsk_errno c \<noteq> TSK_ERR_NONE
        then Inl (None, \<lparr>ctx = c, trace = trace s @ [Raw_open image0 a]\<rparr>)
        else Inr \<lparr>ctx = c, trace = trace s @ [Raw_open image0 a]\<rparr>)"
  by (simp add: detect_raw_def call_defs)

lemma detect_raw_split_opened:
  "n \<noteq> 1 \<Longrightarrow> split_open env n images a (ctx s) = (Some h, c) \<Longrightarrow>
   detect_raw env n images image0 a s
     = Inl (Some h, \<lparr>ctx = c, trace = trace s @ [Split_open n images a]\<rparr>)"
  by (simp add: detect_raw_def call_defs)

lemma detect_raw_split_null:
  "n \<noteq> 1 \<Longrightarrow> split_open env n images a (ctx s) = (None, c) \<Longrightarrow>
   detect_raw env n images image0 a s
     = (if tsk_errno c \<noteq> TSK_ERR_NONE
        then Inl (None, \<lparr>ctx = c, trace = trace s @ [Split_open n images a]\<rparr>)
        else Inr \<lparr>ctx = c, trace = trace s @ [Split_open n images a]\<rparr>)"
  by (simp add: detect_raw_def call_defs)

subsection \<open>The calls that a detection makes\<close>

lemma detect_aff_events:
  assumes "detect_aff cfg env images a s = (cand, s1)"
  shows "if HAVE_LIBAFFLIB cfg then \<exists>evs. trace s1 = trace s @ Aff_open images a # evs
         else s1 = s \<and> cand = None"
  using assms
  by (auto simp: detect_aff_def call_defs state_defs split: if_splits prod.splits option.splits)

lemma detect_ewf_events:
  assumes "detect_ewf cfg env n images a (cand, s) = r"
  shows "if HAVE_LIBEWF cfg
         then \<exists>evs. trace (case r of Inl (h, s2) \<Rightarrow> s2 | Inr (cand2, s2) \<Rightarrow> s2)
                  = trace s @ Ewf_open n images a # evs
         else r = Inr (cand, s)"
  using assms
  by (auto simp: detect_ewf_def call_defs state_defs split: if_splits prod.splits option.splits)

lemma detect_raw_events:
  assumes "detect_raw env n images image0 a s = r"
  shows "trace (case r of Inl (h, s2) \<Rightarrow> s2 | Inr s2 \<Rightarrow> s2)
           = trace s @ [if n = 1 then Raw_open image0 a else Split_open n images a]"
  using assms
  by (auto simp: detect_raw_def call_defs state_defs split: if_splits prod.splits option.splits)

lemma detect_stat_events:
  "trace (snd (detect_stat cfg env image0 s)) = trace s @ [Tstat image0]"
  by (simp add: detect_stat_def state_defs Let_def)

lemma detect_first_event:
  "\<exists>evs. trace (snd (detect cfg env n images image0 a s))
      = trace s @ first_probe cfg n images image0 a # evs"
proof -
  obtain cand s1 where A: "detect_aff cfg env images a (tsk_error_reset s) = (cand, s1)"
    by force
  note A1 = detect_aff_events [OF A]
  have ts: "trace (tsk_error_reset s) = trace s" by (simp add: tsk_error_reset_def)
  obtain r where E: "detect_ewf cfg env n images a (cand, s1) = r" by simp
  note E1 = detect_ewf_events [OF E]
  show ?thesis
  proof (cases r)
    case (Inl o1)
    then show ?thesis using A A1 E E1 ts
      by (cases o1) (auto simp: detect_def first_probe_def split: if_splits)
  next
    case (Inr cs)
    obtain cand2 s2 where cs: "cs = (cand2, s2)" by force
    show ?thesis
    proof (cases cand2)
      case (Some p)
      then show ?thesis using A A1 E E1 ts Inr cs
        by (cases p) (auto simp: detect_def first_probe_def split: if_splits)
    next
      case None
      obtain r3 where R: "detect_raw env n images image0 a s2 = r3" by simp
      note R1 = detect_raw_events [OF R]
      show ?thesis
      proof (cases r3)
        case (Inl o3)
        then show ?thesis using A A1 E E1 ts Inr cs None R R1
          by (cases o3) (auto simp: detect_def first_probe_def split: if_splits)
      next
        case (Inr s3)
        then show ?thesis using A A1 E E1 ts \<open>r = Inr cs\<close> cs None R R1
            detect_stat_events [of cfg env image0 s3]
          by (auto simp: detect_def first_probe_def split: if_splits)
      qed
    qed
  qed
qed

subsection \<open>Validation\<close>

lemma ssize_multiple_not_small:
  assumes "(a :: 32 word) mod 512 = 0" shows "\<not> (0 < a \<and> a < 512)"
proof
  note h = assms
  assume "0 < a \<and> a < 512"
  then have "a mod 512 = a" by (simp add: mod_word_less)
  with h have "a = 0" by simp
  with \<open>0 < a \<and> a < 512\<close> show False by simp
qed

lemma tsk_img_open_valid:
  assumes "(a :: 32 word) mod 512 = 0" and "images = Some image0 # rest"
  shows "tsk_img_open cfg env images type a s =
      (if type = TSK_IMG_TYPE_DETECT
       then detect cfg env (int (length images)) images image0 a (tsk_error_reset s)
       else open_typed cfg env (int (length images)) images image0 type a (tsk_error_reset s))"
proof -
  have n: "(0 < a \<and> a < 512) = False"
    using ssize_multiple_not_small [OF assms(1)] by simp
  have m: "(a mod 512 \<noteq> 0) = False"
    using assms(1) by simp
  show ?thesis
    unfolding tsk_img_open_def Let_def assms(2)
    by (simp only: n m if_False list.case option.case)
qed

lemma open_typed_events:
  "(tsk_errno (ctx (snd (open_typed cfg env n images image0 type a s))) = TSK_ERR_IMG_UNSUPTYPE
      \<and> fst (open_typed cfg env n images image0 type a s) = None)
   \<or> (\<exists>ev. trace (snd (open_typed cfg env n images image0 type a s)) = trace s @ [ev])"
  by (auto simp: open_typed_def call_defs state_defs split: prod.splits)

lemma tsk_img_open_too_small:
  assumes "0 < (a :: 32 word) \<and> a < 512" and "images = Some image0 # rest"
  shows "tsk_img_open cfg env images type a s =
      (None, snprintf_errstr cfg
               (''sector size is less than 512 bytes ('' @ print_d (sint a) @ '')'')
               (set_errno TSK_ERR_IMG_ARG (tsk_error_reset s)))"
  using assms by (simp add: tsk_img_open_def Let_def tsk_error_reset_def)

lemma tsk_img_open_not_multiple:
  assumes "\<not> (0 < (a :: 32 word) \<and> a < 512)" and "a mod 512 \<noteq> 0"
    and "images = Some image0 # rest"
  shows "tsk_img_open cfg env images type a s =
      (None, snprintf_errstr cfg
               (''sector size is not a multiple of 512 ('' @ print_d (sint a) @ '')'')
               (set_errno TSK_ERR_IMG_ARG (tsk_error_reset s)))"
proof -
  have n: "(0 < a \<and> a < 512) = False" using assms(1) by simp
  have m: "(a mod 512 \<noteq> 0) = True" using assms(2) by simp
  show ?thesis
    unfolding tsk_img_open_def Let_def assms(3)
    by (simp only: n m if_False if_True list.case option.case) (simp add: tsk_error_reset_def)
qed

lemma tsk_img_open_not_plain_nofile:
  assumes "images = Some image0 # rest"
  shows "\<not> (tsk_errno (ctx (snd (tsk_img_open cfg env images type a s))) = TSK_ERR_IMG_NOFILE
            \<and> trace (snd (tsk_img_open cfg env images type a s)) = trace s)"
proof (cases "0 < a \<and> a < 512")
  case True
  show ?thesis
    unfolding tsk_img_open_too_small [OF True assms] by (simp add: state_defs)
next
  case small: False
  show ?thesis
  proof (cases "a mod 512 = 0")
    case False
    show ?thesis
      unfolding tsk_img_open_not_multiple [OF small False assms] by (simp add: state_defs)
  next
    case True
    show ?thesis
    proof (cases "type = TSK_IMG_TYPE_DETECT")
      case True
      obtain evs where "trace (snd (detect cfg env (int (length images)) images image0 a (tsk_error_reset s)))
          = trace (tsk_error_reset s) @ first_probe cfg (int (length images)) images image0 a # evs"
        using detect_first_event by blast
      then show ?thesis
        unfolding tsk_img_open_valid [OF \<open>a mod 512 = 0\<close> assms] using True
        by (simp add: tsk_error_reset_def)
    next
      case False
      then show ?thesis
        unfolding tsk_img_open_valid [OF \<open>a mod 512 = 0\<close> assms]
        using open_typed_events [of cfg env "int (length images)" images image0 type a "tsk_error_reset s"]
        by (auto simp: tsk_error_reset_def)
    qed
  qed
qed

subsection \<open>Decimal rendering and the message buffer\<close>

lemma dec_nat_length:
  "n < 10 ^ k \<Longrightarrow> 0 < k \<Longrightarrow> length (dec_nat n) \<le> k"
proof (induction n arbitrary: k rule: dec_nat.induct)
  case (1 n)
  show ?case
  proof (cases "n < 10")
    case True
    then show ?thesis using "1.prems" by (simp add: dec_nat.simps [of n])
  next
    case False
    obtain j where k: "k = Suc j" using "1.prems"(2) by (cases k) auto
    have "j \<noteq> 0" using False "1.prems"(1) k by (cases j) auto
    moreover have "n div 10 < 10 ^ j" using "1.prems"(1) k
      by (simp add: less_mult_imp_div_less mult.commute)
    ultimately have "length (dec_nat (n div 10)) \<le> j"
      using "1.IH" [OF False, of j] by simp
    then show ?thesis using False k by (simp add: dec_nat.simps [of n])
  qed
qed

lemma print_d_sint_length: "length (print_d (sint (a :: 32 word))) \<le> 11"
proof -
  have lo: "- (2 ^ 31) \<le> sint a" using sint_ge [of a] by simp
  have hi: "sint a < 2 ^ 31" using sint_lt [of a] by simp
  show ?thesis
  proof (cases "sint a < 0")
    case True
    have "nat (- sint a) < 10 ^ 10" using lo by simp
    from dec_nat_length [OF this] show ?thesis using True by (simp add: print_d_def)
  next
    case False
    have "nat (sint a) < 10 ^ 10" using hi by simp
    from dec_nat_length [OF this] show ?thesis using False by (simp add: print_d_def)
  qed
qed

lemma print_d_sint_small:
  assumes "(a :: 32 word) < 2 ^ 31"
  shows "print_d (sint a) = dec_nat (unat a)"
proof -
  have hi: "uint a < 2 ^ 31" using assms by (simp add: word_less_def)
  have "(0::int) \<le> 2 ^ 31" by simp
  then have lo: "- (2 ^ 31) \<le> uint a"
    using uint_ge_0 [of a] by linarith
  have "signed_take_bit 31 (uint a) = uint a"
    using lo hi by (rule signed_take_bit_int_eq_self)
  then have "sint a = uint a"
    by (simp add: sint_uint)
  then show ?thesis by (simp add: print_d_def)
qed

lemma snprintf_errstr_fits:
  "length msg < TSK_ERRSTR_L cfg \<Longrightarrow>
   tsk_errstr (ctx (snprintf_errstr cfg msg s)) = msg"
  by (simp add: snprintf_errstr_def)

lemma snprintf_errstr_errno:
  "tsk_errno (ctx (snprintf_errstr cfg msg s)) = tsk_errno (ctx s)"
  by (simp add: snprintf_errstr_def)

lemma snprintf_errstr_trace:
  "trace (snprintf_errstr cfg msg s) = trace s"
  by (simp add: snprintf_errstr_def)


lemma arg_rejection_small:
  assumes "0 < (a :: 32 word) \<and> a < 512" and "images = Some image0 # rest"
    and "51 \<le> TSK_ERRSTR_L cfg"
  shows "fst (tsk_img_open cfg env images type a s) = None"
    and "tsk_errno (ctx (snd (tsk_img_open cfg env images type a s))) = TSK_ERR_IMG_ARG"
    and "trace (snd (tsk_img_open cfg env images type a s)) = trace s"
    and "tsk_errstr (ctx (snd (tsk_img_open cfg env images type a s)))
           = ''sector size is less than 512 bytes ('' @ dec_nat (unat a) @ '')''"
proof -
  note eq = tsk_img_open_too_small [OF assms(1,2), of cfg env type s]
  have "a < 2 ^ 31"
    using assms(1) by (auto elim: order_less_trans)
  then have pd: "print_d (sint a) = dec_nat (unat a)" by (rule print_d_sint_small)
  have "length (print_d (sint a)) \<le> 11" by (rule print_d_sint_length)
  then have len: "length (''sector size is less than 512 bytes ('' @ print_d (sint a) @ '')'')
      < TSK_ERRSTR_L cfg"
    using assms(3) by simp
  show "fst (tsk_img_open cfg env images type a s) = None" by (simp add: eq)
  show "tsk_errno (ctx (snd (tsk_img_open cfg env images type a s))) = TSK_ERR_IMG_ARG"
    by (simp add: eq snprintf_errstr_errno) (simp add: set_errno_def)
  show "trace (snd (tsk_img_open cfg env images type a s)) = trace s"
    by (simp add: eq snprintf_errstr_trace) (simp add: set_errno_def tsk_error_reset_def)
  show "tsk_errstr (ctx (snd (tsk_img_open cfg env images type a s)))
           = ''sector size is less than 512 bytes ('' @ dec_nat (unat a) @ '')''"
    using snprintf_errstr_fits [OF len] by (simp add: eq pd)
qed

lemma arg_rejection_not_multiple:
  assumes "\<not> (0 < (a :: 32 word) \<and> a < 512)" and "a mod 512 \<noteq> 0"
    and "images = Some image0 # rest" and "51 \<le> TSK_ERRSTR_L cfg"
  shows "fst (tsk_img_open cfg env images type a s) = None"
    and "tsk_errno (ctx (snd (tsk_img_open cfg env images type a s))) = TSK_ERR_IMG_ARG"
    and "trace (snd (tsk_img_open cfg env images type a s)) = trace s"
    and "tsk_errstr (ctx (snd (tsk_img_open cfg env images type a s)))
           = ''sector size is not a multiple of 512 ('' @ print_d (sint a) @ '')''"
proof -
  note eq = tsk_img_open_not_multiple [OF assms(1,2,3), of cfg env type s]
  have "length (print_d (sint a)) \<le> 11" by (rule print_d_sint_length)
  then have len: "length (''sector size is not a multiple of 512 ('' @ print_d (sint a) @ '')'')
      < TSK_ERRSTR_L cfg"
    using assms(4) by simp
  show "fst (tsk_img_open cfg env images type a s) = None" by (simp add: eq)
  show "tsk_errno (ctx (snd (tsk_img_open cfg env images type a s))) = TSK_ERR_IMG_ARG"
    by (simp add: eq snprintf_errstr_errno) (simp add: set_errno_def)
  show "trace (snd (tsk_img_open cfg env images type a s)) = trace s"
    by (simp add: eq snprintf_errstr_trace) (simp add: set_errno_def tsk_error_reset_def)
  show "tsk_errstr (ctx (snd (tsk_img_open cfg env images type a s)))
           = ''sector size is not a multiple of 512 ('' @ print_d (sint a) @ '')''"
    using snprintf_errstr_fits [OF len] by (simp add: eq)
qed

lemma valid_size_not_plain_arg:
  assumes "(a :: 32 word) mod 512 = 0" and "images = Some image0 # rest"
  shows "\<not> (tsk_errno (ctx (snd (tsk_img_open cfg env images type a s))) = TSK_ERR_IMG_ARG
            \<and> trace (snd (tsk_img_open cfg env images type a s)) = trace s)"
proof (cases "type = TSK_IMG_TYPE_DETECT")
  case True
  obtain evs where "trace (snd (detect cfg env (int (length images)) images image0 a (tsk_error_reset s)))
      = trace (tsk_error_reset s) @ first_probe cfg (int (length images)) images image0 a # evs"
    using detect_first_event by blast
  then show ?thesis
    unfolding tsk_img_open_valid [OF assms] using True
    by (simp add: tsk_error_reset_def)
next
  case False
  then show ?thesis
    unfolding tsk_img_open_valid [OF assms]
    using open_typed_events [of cfg env "int (length images)" images image0 type a "tsk_error_reset s"]
    by (auto simp: tsk_error_reset_def)
qed

subsection \<open>Calls from a reset error context\<close>

lemma run_probe_reset:
  "run_probe ev p (tsk_error_reset s)
     = (case p no_error of (r, c) \<Rightarrow> (r, \<lparr>ctx = c, trace = trace s @ [ev]\<rparr>))"
  by (simp add: run_probe_def tsk_error_reset_def)

subsection \<open>Resets and the AFF parameter\<close>

lemma trace_reset: "trace (tsk_error_reset s) = trace s"
  by (simp add: tsk_error_reset_def)

lemma ctx_reset: "ctx (tsk_error_reset s) = no_error"
  by (simp add: tsk_error_reset_def)

lemma calls_env_aff:
  "call_ewf_open (env\<lparr>aff_open := f\<rparr>) = call_ewf_open env"
  "call_raw_open (env\<lparr>aff_open := f\<rparr>) = call_raw_open env"
  "call_split_open (env\<lparr>aff_open := f\<rparr>) = call_split_open env"
  "TSTAT (env\<lparr>aff_open := f\<rparr>) = TSTAT env"
  "strerror_errno (env\<lparr>aff_open := f\<rparr>) = strerror_errno env"
  by (intro ext, simp add: call_defs)+

lemma detect_ewf_env_aff [simp]:
  "detect_ewf cfg (env\<lparr>aff_open := f\<rparr>) = detect_ewf cfg env"
  unfolding detect_ewf_def calls_env_aff by (rule refl)

lemma detect_raw_env_aff [simp]:
  "detect_raw (env\<lparr>aff_open := f\<rparr>) = detect_raw env"
  unfolding detect_raw_def calls_env_aff by (rule refl)

lemma detect_stat_env_aff [simp]:
  "detect_stat cfg (env\<lparr>aff_open := f\<rparr>) = detect_stat cfg env"
  unfolding detect_stat_def calls_env_aff by (rule refl)

subsection \<open>A single match\<close>

lemma detect_returns_aff:
  assumes "HAVE_LIBAFFLIB cfg"
    and "aff_open env images a no_error = (Some h, c1)"
    and "itype h \<noteq> TSK_IMG_TYPE_AFF_ANY"
    and "HAVE_LIBEWF cfg \<longrightarrow> fst (ewf_open env n images a c1) = None"
  shows "detect cfg env n images image0 a s
    = (Some h, \<lparr>ctx = (if HAVE_LIBEWF cfg then no_error else c1),
                trace = trace s @ Aff_open images a
                          # (if HAVE_LIBEWF cfg then [Ewf_open n images a] else [])\<rparr>)"
proof -
  have a: "aff_open env images a (ctx (tsk_error_reset s)) = (Some h, c1)"
    using assms(2) by (simp add: ctx_reset)
  note A = detect_aff_match [OF assms(1) a assms(3), unfolded trace_reset]
  show ?thesis
  proof (cases "HAVE_LIBEWF cfg")
    case False
    then show ?thesis by (simp add: detect_def A detect_ewf_absent)
  next
    case True
    then obtain c2 where "ewf_open env n images a c1 = (None, c2)"
      using assms(4) by (cases "ewf_open env n images a c1") simp
    then have "ewf_open env n images a
        (ctx \<lparr>ctx = c1, trace = trace s @ [Aff_open images a]\<rparr>) = (None, c2)"
      by simp
    from detect_ewf_declined [OF True this] True show ?thesis
      by (simp add: detect_def A)
  qed
qed

lemma detect_returns_ewf:
  assumes "HAVE_LIBEWF cfg"
    and "detect_aff cfg env images a (tsk_error_reset s) = (None, s1)"
    and "ewf_open env n images a (ctx s1) = (Some h, c2)"
  shows "detect cfg env n images image0 a s
    = (Some h, \<lparr>ctx = c2, trace = trace s1 @ [Ewf_open n images a]\<rparr>)"
  using detect_ewf_first [OF assms(1,3)] assms(2)
  by (simp add: detect_def)

subsection \<open>Detection after the AFF block\<close>

lemma detect_split:
  "detect cfg env n images image0 a s
     = detect_after_aff cfg env n images image0 a
         (detect_aff cfg env images a (tsk_error_reset s))"
  by (simp add: detect_def detect_after_aff_def)

lemma detect_after_aff_env_aff:
  "detect_after_aff cfg (env\<lparr>aff_open := f\<rparr>) = detect_after_aff cfg env"
  unfolding detect_after_aff_def detect_ewf_env_aff detect_raw_env_aff detect_stat_env_aff
  by (rule refl)

lemma run_probe_prepend:
  "run_probe ev p (prepend_trace t s)
     = (case run_probe ev p s of (r, s') \<Rightarrow> (r, prepend_trace t s'))"
  by (simp add: run_probe_def prepend_trace_def split: prod.splits)

lemma prepend_commutes:
  "tsk_error_reset (prepend_trace t s) = prepend_trace t (tsk_error_reset s)"
  "img_close h (prepend_trace t s) = prepend_trace t (img_close h s)"
  "set_errno e (prepend_trace t s) = prepend_trace t (set_errno e s)"
  "snprintf_errstr cfg msg (prepend_trace t s) = prepend_trace t (snprintf_errstr cfg msg s)"
  "ctx (prepend_trace t s) = ctx s"
  by (simp_all add: prepend_trace_def state_defs)

lemma detect_ewf_prepend:
  "detect_ewf cfg env n images a (cand, prepend_trace t s)
     = map_sum (\<lambda>(r, s'). (r, prepend_trace t s')) (\<lambda>(c, s'). (c, prepend_trace t s'))
         (detect_ewf cfg env n images a (cand, s))"
  by (simp add: detect_ewf_def call_ewf_open_def run_probe_prepend prepend_commutes
      split: prod.splits option.splits)

lemma detect_raw_prepend:
  "detect_raw env n images image0 a (prepend_trace t s)
     = map_sum (\<lambda>(r, s'). (r, prepend_trace t s')) (prepend_trace t)
         (detect_raw env n images image0 a s)"
  by (simp add: detect_raw_def call_raw_open_def call_split_open_def run_probe_prepend
      prepend_commutes split: prod.splits option.splits)

lemma detect_stat_prepend:
  "detect_stat cfg env image0 (prepend_trace t s)
     = (case detect_stat cfg env image0 s of (r, s') \<Rightarrow> (r, prepend_trace t s'))"
proof (cases "TSTAT env image0 < 0
    \<and> \<not> ((TSK_WIN32 cfg \<or> CYGWIN cfg) \<and> TSTRNCMP_eq windows_object_prefix image0 4)")
  case True
  have "detect_stat cfg env image0 s' = (None,
          snprintf_errstr cfg (image0 @ '' : '' @ strerror_errno env image0)
            (set_errno TSK_ERR_IMG_STAT (tsk_error_reset (s'\<lparr>trace := trace s' @ [Tstat image0]\<rparr>))))"
    for s'
    unfolding detect_stat_def Let_def if_P [OF True] by (rule refl)
  then show ?thesis
    by (simp add: prepend_trace_def state_defs)
next
  case False
  have "detect_stat cfg env image0 s' = (None, s'\<lparr>trace := trace s' @ [Tstat image0]\<rparr>
          \<lparr>ctx := \<lparr>tsk_errno = TSK_ERR_IMG_UNKTYPE, tsk_errstr = [], tsk_errstr2 = []\<rparr>\<rparr>)"
    for s'
    unfolding detect_stat_def Let_def if_not_P [OF False] by (rule refl)
  then show ?thesis
    by (simp add: prepend_trace_def)
qed

lemma detect_after_aff_prepend:
  "detect_after_aff cfg env n images image0 a (cand, prepend_trace t s)
     = (case detect_after_aff cfg env n images image0 a (cand, s) of
          (r, s') \<Rightarrow> (r, prepend_trace t s'))"
  unfolding detect_after_aff_def detect_ewf_prepend
  by (auto simp: detect_raw_prepend detect_stat_prepend
      split: sum.splits prod.splits option.splits)


lemma detect_ewf_provenance:
  assumes "detect_ewf cfg env n images a (None, s) = r"
  shows "case r of
           Inl x \<Rightarrow> False
         | Inr (None, s2) \<Rightarrow> True
         | Inr (Some (nm, h'), s2) \<Rightarrow> fst (ewf_open env n images a (ctx s)) = Some h'"
  using assms
  by (auto simp: detect_ewf_def call_ewf_open_def run_probe_def
      split: if_splits prod.splits option.splits)

lemma detect_raw_provenance:
  assumes "detect_raw env n images image0 a s = Inl (Some h', s')"
  shows "fst (raw_open env image0 a (ctx s)) = Some h'
       \<or> fst (split_open env n images a (ctx s)) = Some h'"
  using assms
  by (auto simp: detect_raw_def call_raw_open_def call_split_open_def run_probe_def
      split: if_splits prod.splits option.splits)

lemma detect_stat_no_handle: "fst (detect_stat cfg env image0 s) = None"
  by (simp add: detect_stat_def Let_def)

lemma detect_after_aff_provenance:
  assumes "detect_after_aff cfg env n images image0 a (None, s) = (Some h', s')"
  shows "(\<exists>c. fst (ewf_open env n images a c) = Some h')
       \<or> (\<exists>c. fst (raw_open env image0 a c) = Some h')
       \<or> (\<exists>c. fst (split_open env n images a c) = Some h')"
proof -
  obtain r where E: "detect_ewf cfg env n images a (None, s) = r" by simp
  note P = detect_ewf_provenance [OF E]
  show ?thesis
  proof (cases r)
    case (Inl x)
    with P show ?thesis by simp
  next
    case (Inr cs)
    obtain cand s2 where cs: "cs = (cand, s2)" by force
    show ?thesis
    proof (cases cand)
      case (Some p)
      obtain nm h2 where p: "p = (nm, h2)" by force
      from assms E Inr cs Some p have "h2 = h'" by (simp add: detect_after_aff_def)
      with P Inr cs Some p show ?thesis by auto
    next
      case None
      obtain r3 where R: "detect_raw env n images image0 a s2 = r3" by simp
      show ?thesis
      proof (cases r3)
        case (Inl o3)
        with assms E \<open>r = Inr cs\<close> cs None R have "o3 = (Some h', s')"
          by (simp add: detect_after_aff_def)
        with R Inl have "detect_raw env n images image0 a s2 = Inl (Some h', s')" by simp
        from detect_raw_provenance [OF this] show ?thesis by blast
      next
        case (Inr s3)
        with assms E \<open>r = Inr cs\<close> cs None R
        have "detect_stat cfg env image0 s3 = (Some h', s')"
          by (simp add: detect_after_aff_def)
        with detect_stat_no_handle [of cfg env image0 s3] show ?thesis by simp
      qed
    qed
  qed
qed

subsection \<open>No match at all\<close>

lemma detect_aff_no_match:
  assumes "HAVE_LIBAFFLIB cfg \<longrightarrow>
             fst (aff_open env images a no_error) = None
           \<or> (aff_open env images a no_error = (Some h0, no_error)
               \<and> itype h0 = TSK_IMG_TYPE_AFF_ANY)"
    and "ctx s = no_error"
  shows "\<exists>evs. detect_aff cfg env images a s = (None, \<lparr>ctx = no_error, trace = trace s @ evs\<rparr>)"
proof (cases "HAVE_LIBAFFLIB cfg")
  case False
  have "s = \<lparr>ctx = no_error, trace = trace s @ []\<rparr>" using assms(2) by simp
  with detect_aff_absent [OF False, of env images a s] show ?thesis by metis
next
  case True
  with assms(1) consider
    (declined) "fst (aff_open env images a no_error) = None"
  | (any) "aff_open env images a no_error = (Some h0, no_error)" "itype h0 = TSK_IMG_TYPE_AFF_ANY"
    by auto
  then show ?thesis
  proof cases
    case declined
    then obtain c where "aff_open env images a (ctx s) = (None, c)"
      using assms(2) by (cases "aff_open env images a no_error") simp
    from detect_aff_declined [OF True this] show ?thesis by blast
  next
    case any
    then have "aff_open env images a (ctx s) = (Some h0, no_error)"
      using assms(2) by simp
    from detect_aff_any [OF True this any(2)] show ?thesis by blast
  qed
qed

lemma detect_ewf_no_match:
  assumes "HAVE_LIBEWF cfg \<longrightarrow> fst (ewf_open env n images a no_error) = None"
    and "ctx s = no_error"
  shows "\<exists>evs. detect_ewf cfg env n images a (None, s)
           = Inr (None, \<lparr>ctx = no_error, trace = trace s @ evs\<rparr>)"
proof (cases "HAVE_LIBEWF cfg")
  case False
  have "s = \<lparr>ctx = no_error, trace = trace s @ []\<rparr>" using assms(2) by simp
  with detect_ewf_absent [OF False, of env n images a None s] show ?thesis by metis
next
  case True
  with assms obtain c where "ewf_open env n images a (ctx s) = (None, c)"
    by (cases "ewf_open env n images a no_error") simp
  from detect_ewf_declined [OF True this] show ?thesis by blast
qed

lemma detect_raw_undiagnosed:
  assumes "(if n = 1 then raw_open env image0 a no_error
            else split_open env n images a no_error) = (None, c)"
    and "tsk_errno c = TSK_ERR_NONE" and "ctx s = no_error"
  shows "\<exists>ev. detect_raw env n images image0 a s = Inr \<lparr>ctx = c, trace = trace s @ [ev]\<rparr>"
proof (cases "n = 1")
  case True
  with assms(1,3) have "raw_open env image0 a (ctx s) = (None, c)" by simp
  from detect_raw_single_null [OF True this] assms(2) show ?thesis by simp
next
  case False
  with assms(1,3) have "split_open env n images a (ctx s) = (None, c)" by simp
  from detect_raw_split_null [OF False this] assms(2) show ?thesis by simp
qed

lemma detect_stat_result:
  "detect_stat cfg env image0 s =
     (None,
      \<lparr>ctx = (if TSTAT env image0 < 0
                  \<and> \<not> ((TSK_WIN32 cfg \<or> CYGWIN cfg) \<and> take 4 image0 = windows_object_prefix)
               then \<lparr>tsk_errno = TSK_ERR_IMG_STAT,
                     tsk_errstr = take (TSK_ERRSTR_L cfg - 1)
                                    (image0 @ '' : '' @ strerror_errno env image0),
                     tsk_errstr2 = []\<rparr>
               else \<lparr>tsk_errno = TSK_ERR_IMG_UNKTYPE, tsk_errstr = [], tsk_errstr2 = []\<rparr>),
       trace = trace s @ [Tstat image0]\<rparr>)"
proof -
  have p: "TSTRNCMP_eq windows_object_prefix image0 4 = (take 4 image0 = windows_object_prefix)"
    by (auto simp: TSTRNCMP_eq_def windows_object_prefix_def)
  show ?thesis
  proof (cases "TSTAT env image0 < 0
      \<and> \<not> ((TSK_WIN32 cfg \<or> CYGWIN cfg) \<and> take 4 image0 = windows_object_prefix)")
    case True
    then have "TSTAT env image0 < 0
      \<and> \<not> ((TSK_WIN32 cfg \<or> CYGWIN cfg) \<and> TSTRNCMP_eq windows_object_prefix image0 4)"
      by (simp add: p)
    then have "detect_stat cfg env image0 s = (None,
          snprintf_errstr cfg (image0 @ '' : '' @ strerror_errno env image0)
            (set_errno TSK_ERR_IMG_STAT (tsk_error_reset (s\<lparr>trace := trace s @ [Tstat image0]\<rparr>))))"
      unfolding detect_stat_def Let_def by (simp only: if_True simp_thms)
    then show ?thesis using True
      by (simp add: state_defs no_error_def)
  next
    case False
    then have "\<not> (TSTAT env image0 < 0
      \<and> \<not> ((TSK_WIN32 cfg \<or> CYGWIN cfg) \<and> TSTRNCMP_eq windows_object_prefix image0 4))"
      by (simp add: p)
    then have "detect_stat cfg env image0 s = (None, s\<lparr>trace := trace s @ [Tstat image0]\<rparr>
          \<lparr>ctx := \<lparr>tsk_errno = TSK_ERR_IMG_UNKTYPE, tsk_errstr = [], tsk_errstr2 = []\<rparr>\<rparr>)"
      unfolding detect_stat_def Let_def by (rule if_not_P)
    then show ?thesis using False by simp
  qed
qed

subsection \<open>The conversion loop\<close>

lemma utf8_loop_conversion_fails:
  assumes "\<forall>k. i < k \<and> k \<le> i + Suc (length pre) \<longrightarrow> (\<forall>c. fst (tsk_malloc env k c))"
    and "\<forall>q \<in> set pre. fst (tsk_UTF8toUTF16 env q) = TSKconversionOK"
    and "fst (tsk_UTF8toUTF16 env p) = retval2" and "retval2 \<noteq> TSKconversionOK"
  shows "\<exists>c'. utf8_loop cfg env i (map Some pre @ Some p # post) images16 s
           = Some (None,
               snprintf_errstr cfg
                 (''tsk_img_open_utf8: Error converting image '' @ p @ '' ''
                    @ print_d (conversion_value cfg retval2))
                 (set_errno TSK_ERR_IMG_CONVERT
                   \<lparr>ctx = c', trace = trace s @ map UTF8toUTF16 (pre @ [p])\<rparr>))"
  using assms(1,2)
proof (induction pre arbitrary: i images16 s)
  case Nil
  then have "fst (tsk_malloc env (Suc i) (ctx s))" by simp
  then obtain c where m: "tsk_malloc env (Suc i) (ctx s) = (True, c)"
    by (cases "tsk_malloc env (Suc i) (ctx s)") simp
  obtain w where cv: "tsk_UTF8toUTF16 env p = (retval2, w)"
    using assms(3) by (cases "tsk_UTF8toUTF16 env p") simp
  show ?case using m cv assms(4) by (intro exI [of _ c]) (simp add: Let_def)
next
  case (Cons q pre)
  have "fst (tsk_malloc env (Suc i) (ctx s))" using Cons.prems(1) by simp
  then obtain c where m: "tsk_malloc env (Suc i) (ctx s) = (True, c)"
    by (cases "tsk_malloc env (Suc i) (ctx s)") simp
  obtain w where cv: "tsk_UTF8toUTF16 env q = (TSKconversionOK, w)"
    using Cons.prems(2) by (cases "tsk_UTF8toUTF16 env q") simp
  have al: "\<forall>k. Suc i < k \<and> k \<le> Suc i + Suc (length pre) \<longrightarrow> (\<forall>c. fst (tsk_malloc env k c))"
    using Cons.prems(1) by simp
  have ok: "\<forall>q \<in> set pre. fst (tsk_UTF8toUTF16 env q) = TSKconversionOK"
    using Cons.prems(2) by simp
  from Cons.IH [OF al ok, of "images16 @ [w]" "\<lparr>ctx = c, trace = trace s @ [UTF8toUTF16 q]\<rparr>"]
  show ?case using m cv by (simp add: Let_def)
qed

subsection \<open>Declining probes\<close>

lemma probes_declined:
  assumes "HAVE_LIBAFFLIB cfg \<longrightarrow> fst (aff_open env images a no_error) = None"
    and "HAVE_LIBEWF cfg \<longrightarrow> fst (ewf_open env n images a no_error) = None"
    and "ctx s = no_error"
  shows "detect_ewf cfg env n images a (detect_aff cfg env images a s)
    = Inr (None, \<lparr>ctx = no_error,
             trace = trace s @ (if HAVE_LIBAFFLIB cfg then [Aff_open images a] else [])
                       @ (if HAVE_LIBEWF cfg then [Ewf_open n images a] else [])\<rparr>)"
proof -
  have A: "detect_aff cfg env images a s
      = (None, \<lparr>ctx = no_error,
           trace = trace s @ (if HAVE_LIBAFFLIB cfg then [Aff_open images a] else [])\<rparr>)"
  proof (cases "HAVE_LIBAFFLIB cfg")
    case False
    then show ?thesis using assms(3) by (simp add: detect_aff_absent)
  next
    case True
    with assms(1,3) obtain c where "aff_open env images a (ctx s) = (None, c)"
      by (cases "aff_open env images a no_error") simp
    from detect_aff_declined [OF True this] True show ?thesis by simp
  qed
  let ?s1 = "\<lparr>ctx = no_error,
           trace = trace s @ (if HAVE_LIBAFFLIB cfg then [Aff_open images a] else [])\<rparr>"
  have E: "detect_ewf cfg env n images a (None, ?s1)
      = Inr (None, \<lparr>ctx = no_error,
           trace = trace ?s1 @ (if HAVE_LIBEWF cfg then [Ewf_open n images a] else [])\<rparr>)"
  proof (cases "HAVE_LIBEWF cfg")
    case False
    then show ?thesis by (simp add: detect_ewf_absent)
  next
    case True
    with assms(2) obtain c where "ewf_open env n images a (ctx ?s1) = (None, c)"
      by (cases "ewf_open env n images a no_error") simp
    from detect_ewf_declined [OF True this] True show ?thesis by simp
  qed
  show ?thesis unfolding A E by simp
qed

lemma detect_raw_result:
  assumes "(if n = 1 then raw_open env image0 a (ctx s)
            else split_open env n images a (ctx s)) = (r, c)"
  shows "detect_raw env n images image0 a s
    = (if r \<noteq> None \<or> tsk_errno c \<noteq> TSK_ERR_NONE
       then Inl (r, \<lparr>ctx = c,
              trace = trace s @ [if n = 1 then Raw_open image0 a else Split_open n images a]\<rparr>)
       else Inr \<lparr>ctx = c,
              trace = trace s @ [if n = 1 then Raw_open image0 a else Split_open n images a]\<rparr>)"
proof (cases "n = 1")
  case True
  with assms have e: "raw_open env image0 a (ctx s) = (r, c)" by simp
  show ?thesis
  proof (cases r)
    case None
    with e detect_raw_single_null [OF True, of env image0 a s c images] True
    show ?thesis by simp
  next
    case (Some h)
    with e detect_raw_single_opened [OF True, of env image0 a s h c images] True
    show ?thesis by simp
  qed
next
  case False
  with assms have e: "split_open env n images a (ctx s) = (r, c)" by simp
  show ?thesis
  proof (cases r)
    case None
    with e detect_raw_split_null [OF False, of env images a s c image0] False
    show ?thesis by simp
  next
    case (Some h)
    with e detect_raw_split_opened [OF False, of env images a s h c image0] False
    show ?thesis by simp
  qed
qed

subsection \<open>An ANY handle and a clean error context\<close>

text \<open>
  When the AFF probe returns a handle of the type \<open>TSK_IMG_TYPE_AFF_ANY\<close> and leaves
  the error context as the reset left it, the handle is closed right after the probe and
  the rest of the call is that of a run in which the AFF probe declines.
\<close>

lemma aff_any_clean_context_as_declined:
  assumes "HAVE_LIBAFFLIB cfg"
    and "images = Some image0 # rest" and "a_ssize mod 512 = 0"
    and "aff_open env images a_ssize no_error = (Some h, no_error)"
    and "itype h = TSK_IMG_TYPE_AFF_ANY"
  shows "\<exists>r c evs.
      tsk_img_open cfg env images TSK_IMG_TYPE_DETECT a_ssize s
        = (r, \<lparr>ctx = c, trace = trace s @ Aff_open images a_ssize # Close h # evs\<rparr>)
    \<and> tsk_img_open cfg (env\<lparr>aff_open := \<lambda>i z. silent\<rparr>) images TSK_IMG_TYPE_DETECT a_ssize s
        = (r, \<lparr>ctx = c, trace = trace s @ Aff_open images a_ssize # evs\<rparr>)
    \<and> (\<forall>h'. r = Some h' \<longrightarrow>
          (\<exists>c'. fst (ewf_open env (int (length images)) images a_ssize c') = Some h')
        \<or> (\<exists>c'. fst (raw_open env image0 a_ssize c') = Some h')
        \<or> (\<exists>c'. fst (split_open env (int (length images)) images a_ssize c') = Some h'))"
proof -
  let ?n = "int (length images)"
  let ?env' = "env\<lparr>aff_open := \<lambda>i z. silent\<rparr>"
  let ?s0 = "tsk_error_reset (tsk_error_reset s)"
  let ?base = "\<lparr>ctx = no_error, trace = []\<rparr>"
  obtain r sb where R: "detect_after_aff cfg env ?n images image0 a_ssize (None, ?base) = (r, sb)"
    by force
  have a: "aff_open env images a_ssize (ctx ?s0) = (Some h, no_error)"
    using assms(4) by (simp add: ctx_reset)
  have A: "detect_aff cfg env images a_ssize ?s0
      = (None, prepend_trace (trace s @ [Aff_open images a_ssize, Close h]) ?base)"
    by (simp add: detect_aff_any [OF assms(1) a assms(5)] trace_reset prepend_trace_def)
  have a': "aff_open ?env' images a_ssize (ctx ?s0) = (None, ctx ?s0)"
    by (simp add: silent_def)
  have A': "detect_aff cfg ?env' images a_ssize ?s0
      = (None, prepend_trace (trace s @ [Aff_open images a_ssize]) ?base)"
    by (simp add: detect_aff_declined [OF assms(1) a'] trace_reset prepend_trace_def)
  have D: "detect_after_aff cfg env ?n images image0 a_ssize (None, prepend_trace t ?base)
      = (r, \<lparr>ctx = ctx sb, trace = t @ trace sb\<rparr>)" for t
    by (simp add: detect_after_aff_prepend R) (simp add: prepend_trace_def)
  have 1: "tsk_img_open cfg env images TSK_IMG_TYPE_DETECT a_ssize s
      = (r, \<lparr>ctx = ctx sb, trace = trace s @ Aff_open images a_ssize # Close h # trace sb\<rparr>)"
    by (simp add: tsk_img_open_valid [OF assms(3,2)] detect_split A D)
  have 2: "tsk_img_open cfg ?env' images TSK_IMG_TYPE_DETECT a_ssize s
      = (r, \<lparr>ctx = ctx sb, trace = trace s @ Aff_open images a_ssize # trace sb\<rparr>)"
    by (simp add: tsk_img_open_valid [OF assms(3,2)] detect_split A' detect_after_aff_env_aff D)
  have 3: "\<forall>h'. r = Some h' \<longrightarrow>
          (\<exists>c'. fst (ewf_open env ?n images a_ssize c') = Some h')
        \<or> (\<exists>c'. fst (raw_open env image0 a_ssize c') = Some h')
        \<or> (\<exists>c'. fst (split_open env ?n images a_ssize c') = Some h')"
    using detect_after_aff_provenance [of cfg env ?n images image0 a_ssize ?base _ sb] R
    by blast
  from 1 2 3 show ?thesis by blast
qed

section \<open>Statements of the specification\<close>

text \<open>
  C8. A call with an empty path list (no path at all, or a null first entry) returns no
  handle and leaves the code \<open>TSK_ERR_IMG_NOFILE\<close>; no collaborator is called.
  The statement holds for every sector size and every type, the sizes that the
  sector-size validation rejects included: the check comes first.
\<close>

theorem empty_path_list_is_nofile:
  assumes "images = [] \<or> images = None # rest"
  shows "fst (tsk_img_open cfg env images type a_ssize s) = None
       \<and> tsk_errno (ctx (snd (tsk_img_open cfg env images type a_ssize s))) = TSK_ERR_IMG_NOFILE
       \<and> trace (snd (tsk_img_open cfg env images type a_ssize s)) = trace s"
  using assms by (auto simp: tsk_img_open_def state_defs Let_def)

theorem empty_path_list_is_nofile_witness:
  "([None, Some ''b.dd''] = [] \<or> [None, Some ''b.dd''] = None # [Some ''b.dd''])
   \<and> fst (tsk_img_open sample_build
        (sample_backends (sample_probe (Some h_aff) TSK_ERR_NONE) silent silent silent 0)
        [None, Some ''b.dd''] TSK_IMG_TYPE_DETECT 100 start_state) = None
   \<and> tsk_errno (ctx (snd (tsk_img_open sample_build
        (sample_backends (sample_probe (Some h_aff) TSK_ERR_NONE) silent silent silent 0)
        [None, Some ''b.dd''] TSK_IMG_TYPE_DETECT 100 start_state))) = TSK_ERR_IMG_NOFILE
   \<and> trace (snd (tsk_img_open sample_build
        (sample_backends (sample_probe (Some h_aff) TSK_ERR_NONE) silent silent silent 0)
        [None, Some ''b.dd''] TSK_IMG_TYPE_DETECT 100 start_state)) = []"
  using empty_path_list_is_nofile [of "[None, Some ''b.dd'']" "[Some ''b.dd'']" sample_build
      "sample_backends (sample_probe (Some h_aff) TSK_ERR_NONE) silent silent silent 0"
      TSK_IMG_TYPE_DETECT 100 start_state]
  by (simp add: start_state_def)

text \<open>
  C10. A first path that is the empty string, not the null pointer, passes the first
  check: the outcome is never the rejection of that check (the code
  \<open>TSK_ERR_IMG_NOFILE\<close> with no call made). With a sector size that passes
  validation, autodetection hands the path array to its first backend, and the type
  \<open>TSK_IMG_TYPE_RAW_SING\<close> hands the empty path to the raw backend or the
  array to the split backend.
\<close>

theorem empty_string_first_path_passes_validation:
  assumes "images = Some [] # rest"
  shows "\<not> (tsk_errno (ctx (snd (tsk_img_open cfg env images type a_ssize s))) = TSK_ERR_IMG_NOFILE
            \<and> trace (snd (tsk_img_open cfg env images type a_ssize s)) = trace s)
       \<and> (a_ssize mod 512 = 0 \<and> type = TSK_IMG_TYPE_DETECT \<longrightarrow>
            (\<exists>evs. trace (snd (tsk_img_open cfg env images type a_ssize s))
               = trace s @ first_probe cfg (int (length images)) images [] a_ssize # evs))
       \<and> (a_ssize mod 512 = 0 \<and> type = TSK_IMG_TYPE_RAW_SING \<longrightarrow>
            trace (snd (tsk_img_open cfg env images type a_ssize s))
               = trace s @ [if rest = [] then Raw_open [] a_ssize
                            else Split_open (int (length images)) images a_ssize])"
proof (intro conjI impI)
  show "\<not> (tsk_errno (ctx (snd (tsk_img_open cfg env images type a_ssize s))) = TSK_ERR_IMG_NOFILE
            \<and> trace (snd (tsk_img_open cfg env images type a_ssize s)) = trace s)"
    by (rule tsk_img_open_not_plain_nofile [OF assms])
next
  assume h: "a_ssize mod 512 = 0 \<and> type = TSK_IMG_TYPE_DETECT"
  obtain evs where "trace (snd (detect cfg env (int (length images)) images [] a_ssize (tsk_error_reset s)))
      = trace (tsk_error_reset s) @ first_probe cfg (int (length images)) images [] a_ssize # evs"
    using detect_first_event by blast
  then show "\<exists>evs. trace (snd (tsk_img_open cfg env images type a_ssize s))
               = trace s @ first_probe cfg (int (length images)) images [] a_ssize # evs"
    using h tsk_img_open_valid [OF _ assms, of a_ssize cfg env type s]
    by (simp add: tsk_error_reset_def)
next
  assume h: "a_ssize mod 512 = 0 \<and> type = TSK_IMG_TYPE_RAW_SING"
  then show "trace (snd (tsk_img_open cfg env images type a_ssize s))
               = trace s @ [if rest = [] then Raw_open [] a_ssize
                            else Split_open (int (length images)) images a_ssize]"
    using tsk_img_open_valid [OF _ assms, of a_ssize cfg env type s] assms
    by (auto simp: open_typed_def call_defs tsk_error_reset_def split: prod.splits)
qed

theorem empty_string_first_path_passes_validation_witness:
  "[Some []] = Some [] # []
   \<and> (0 :: 32 word) mod 512 = 0
   \<and> \<not> (tsk_errno (ctx (snd (tsk_img_open
             (sample_build\<lparr>HAVE_LIBAFFLIB := False, HAVE_LIBEWF := False\<rparr>)
             (sample_backends silent silent silent silent (- 1))
             [Some []] TSK_IMG_TYPE_DETECT 0 start_state))) = TSK_ERR_IMG_NOFILE
          \<and> trace (snd (tsk_img_open
             (sample_build\<lparr>HAVE_LIBAFFLIB := False, HAVE_LIBEWF := False\<rparr>)
             (sample_backends silent silent silent silent (- 1))
             [Some []] TSK_IMG_TYPE_DETECT 0 start_state)) = trace start_state)
   \<and> trace (snd (tsk_img_open
             (sample_build\<lparr>HAVE_LIBAFFLIB := False, HAVE_LIBEWF := False\<rparr>)
             (sample_backends silent silent silent silent (- 1))
             [Some []] TSK_IMG_TYPE_DETECT 0 start_state)) = [Raw_open [] 0, Tstat []]
   \<and> tsk_errno (ctx (snd (tsk_img_open
             (sample_build\<lparr>HAVE_LIBAFFLIB := False, HAVE_LIBEWF := False\<rparr>)
             (sample_backends silent silent silent silent (- 1))
             [Some []] TSK_IMG_TYPE_DETECT 0 start_state))) = TSK_ERR_IMG_STAT"
  using empty_string_first_path_passes_validation [of "[Some []]" "[]"
      "sample_build\<lparr>HAVE_LIBAFFLIB := False, HAVE_LIBEWF := False\<rparr>"
      "sample_backends silent silent silent silent (- 1)"
      TSK_IMG_TYPE_DETECT 0 start_state]
  by (simp add: tsk_img_open_def detect_def detect_aff_def detect_ewf_def detect_raw_def
      detect_stat_def call_defs state_defs sample_defs TSTRNCMP_eq_def Let_def)

text \<open>
  C3. With a first path that is not null, the call is rejected with
  \<open>TSK_ERR_IMG_ARG\<close> and without any call to a collaborator exactly when the
  sector size is not 0 and is below 512 or not a multiple of 512; so 0 is never
  rejected. A size from 1 to 511 gets the message of the 512-byte floor, with the size in
  decimal. A size from 512 up to \<open>2^31 - 1\<close> that is not a multiple of 512 gets
  the message of the modulus requirement, with the size in decimal. The messages are
  stored whole in a buffer of at least 51 characters.
\<close>

theorem sector_size_validation:
  assumes "images = Some image0 # rest" and "51 \<le> TSK_ERRSTR_L cfg"
  shows "((fst (tsk_img_open cfg env images type a_ssize s) = None
           \<and> tsk_errno (ctx (snd (tsk_img_open cfg env images type a_ssize s))) = TSK_ERR_IMG_ARG
           \<and> trace (snd (tsk_img_open cfg env images type a_ssize s)) = trace s)
          \<longleftrightarrow> (a_ssize \<noteq> 0 \<and> (a_ssize < 512 \<or> a_ssize mod 512 \<noteq> 0)))
       \<and> (0 < a_ssize \<and> a_ssize < 512 \<longrightarrow>
            tsk_errstr (ctx (snd (tsk_img_open cfg env images type a_ssize s)))
              = ''sector size is less than 512 bytes ('' @ dec_nat (unat a_ssize) @ '')'')
       \<and> (512 \<le> a_ssize \<and> a_ssize < 2 ^ 31 \<and> a_ssize mod 512 \<noteq> 0 \<longrightarrow>
            tsk_errstr (ctx (snd (tsk_img_open cfg env images type a_ssize s)))
              = ''sector size is not a multiple of 512 ('' @ dec_nat (unat a_ssize) @ '')'')"
proof -
  let ?r = "tsk_img_open cfg env images type a_ssize s"
  have p1: "(fst ?r = None \<and> tsk_errno (ctx (snd ?r)) = TSK_ERR_IMG_ARG \<and> trace (snd ?r) = trace s)
          \<longleftrightarrow> (a_ssize \<noteq> 0 \<and> (a_ssize < 512 \<or> a_ssize mod 512 \<noteq> 0))"
  proof
    assume r: "fst ?r = None \<and> tsk_errno (ctx (snd ?r)) = TSK_ERR_IMG_ARG \<and> trace (snd ?r) = trace s"
    have nz: "a_ssize mod 512 \<noteq> 0"
    proof
      assume "a_ssize mod 512 = 0"
      from valid_size_not_plain_arg [OF this assms(1), of cfg env type s] r
      show False by blast
    qed
    then have "a_ssize \<noteq> 0" by auto
    with nz show "a_ssize \<noteq> 0 \<and> (a_ssize < 512 \<or> a_ssize mod 512 \<noteq> 0)" by simp
  next
    assume h: "a_ssize \<noteq> 0 \<and> (a_ssize < 512 \<or> a_ssize mod 512 \<noteq> 0)"
    show "fst ?r = None \<and> tsk_errno (ctx (snd ?r)) = TSK_ERR_IMG_ARG \<and> trace (snd ?r) = trace s"
    proof (cases "0 < a_ssize \<and> a_ssize < 512")
      case True
      from arg_rejection_small(1,2,3) [OF True assms] show ?thesis by simp
    next
      case False
      then have "a_ssize mod 512 \<noteq> 0" using h by (auto simp: word_neq_0_conv)
      from arg_rejection_not_multiple(1,2,3) [OF False this assms] show ?thesis by simp
    qed
  qed
  have p2: "0 < a_ssize \<and> a_ssize < 512 \<longrightarrow>
      tsk_errstr (ctx (snd ?r)) = ''sector size is less than 512 bytes ('' @ dec_nat (unat a_ssize) @ '')''"
    using arg_rejection_small(4) [OF _ assms] by blast
  have p3: "512 \<le> a_ssize \<and> a_ssize < 2 ^ 31 \<and> a_ssize mod 512 \<noteq> 0 \<longrightarrow>
      tsk_errstr (ctx (snd ?r)) = ''sector size is not a multiple of 512 ('' @ dec_nat (unat a_ssize) @ '')''"
  proof
    assume h: "512 \<le> a_ssize \<and> a_ssize < 2 ^ 31 \<and> a_ssize mod 512 \<noteq> 0"
    then have "\<not> (0 < a_ssize \<and> a_ssize < 512)" by auto
    from arg_rejection_not_multiple(4) [OF this _ assms] h print_d_sint_small [of a_ssize]
    show "tsk_errstr (ctx (snd ?r)) = ''sector size is not a multiple of 512 ('' @ dec_nat (unat a_ssize) @ '')''"
      by simp
  qed
  from p1 p2 p3 show ?thesis by (intro conjI)
qed

text \<open>
  The size 100 is positive and not a multiple of 512, and its message is the one of the
  floor: the modulus requirement is not mentioned.
\<close>

theorem sector_size_100_counterexample:
  "0 < (100 :: 32 word) \<and> (100 :: 32 word) mod 512 \<noteq> 0
   \<and> tsk_errstr (ctx (snd (tsk_img_open sample_build
        (sample_backends silent silent silent silent 0)
        [Some ''image.dd''] TSK_IMG_TYPE_DETECT 100 start_state)))
      = ''sector size is less than 512 bytes (100)''
   \<and> \<not> sublist ''multiple of 512'' (tsk_errstr (ctx (snd (tsk_img_open sample_build
        (sample_backends silent silent silent silent 0)
        [Some ''image.dd''] TSK_IMG_TYPE_DETECT 100 start_state))))"
  by (simp add: tsk_img_open_def state_defs sample_defs Let_def print_d_def
      dec_nat.simps digit_char_def sublist_Cons_right)

theorem sector_size_validation_witness:
  "[Some ''image.dd''] = Some ''image.dd'' # [] \<and> 51 \<le> TSK_ERRSTR_L sample_build
   \<and> 512 \<le> (700 :: 32 word) \<and> (700 :: 32 word) mod 512 \<noteq> 0 \<and> (700 :: 32 word) < 2 ^ 31
   \<and> fst (tsk_img_open sample_build (sample_backends silent silent silent silent 0)
        [Some ''image.dd''] TSK_IMG_TYPE_DETECT 700 start_state) = None
   \<and> tsk_errno (ctx (snd (tsk_img_open sample_build (sample_backends silent silent silent silent 0)
        [Some ''image.dd''] TSK_IMG_TYPE_DETECT 700 start_state))) = TSK_ERR_IMG_ARG
   \<and> trace (snd (tsk_img_open sample_build (sample_backends silent silent silent silent 0)
        [Some ''image.dd''] TSK_IMG_TYPE_DETECT 700 start_state)) = []
   \<and> tsk_errstr (ctx (snd (tsk_img_open sample_build (sample_backends silent silent silent silent 0)
        [Some ''image.dd''] TSK_IMG_TYPE_DETECT 700 start_state)))
      = ''sector size is not a multiple of 512 (700)''
   \<and> 0 < (100 :: 32 word) \<and> (100 :: 32 word) < 512
   \<and> tsk_errstr (ctx (snd (tsk_img_open sample_build (sample_backends silent silent silent silent 0)
        [Some ''image.dd''] TSK_IMG_TYPE_DETECT 100 start_state)))
      = ''sector size is less than 512 bytes (100)''"
  using sector_size_validation [of "[Some ''image.dd'']" "''image.dd''" "[]" sample_build
      "sample_backends silent silent silent silent 0" TSK_IMG_TYPE_DETECT 700 start_state]
    sector_size_validation [of "[Some ''image.dd'']" "''image.dd''" "[]" sample_build
      "sample_backends silent silent silent silent 0" TSK_IMG_TYPE_DETECT 100 start_state]
  by (simp add: sample_build_def start_state_def print_d_def dec_nat.simps digit_char_def)

text \<open>
  C4. With a first path that is not null and a sector size that passes validation, the
  type \<open>TSK_IMG_TYPE_RAW_SING\<close> with more than one path is the call of the split
  backend on the path array, and the type \<open>TSK_IMG_TYPE_RAW_SPLIT\<close> with exactly one
  path is the call of the raw backend on that path: the handle and the error context are
  those of the backend, called with a reset error context.
\<close>

theorem raw_types_route_by_path_count:
  assumes "images = Some image0 # rest" and "a_ssize mod 512 = 0"
  shows "(1 < length images \<longrightarrow>
            tsk_img_open cfg env images TSK_IMG_TYPE_RAW_SING a_ssize s
              = (case split_open env (int (length images)) images a_ssize no_error of
                   (r, c) \<Rightarrow> (r, \<lparr>ctx = c,
                      trace = trace s @ [Split_open (int (length images)) images a_ssize]\<rparr>)))
       \<and> (length images = 1 \<longrightarrow>
            tsk_img_open cfg env images TSK_IMG_TYPE_RAW_SPLIT a_ssize s
              = (case raw_open env image0 a_ssize no_error of
                   (r, c) \<Rightarrow> (r, \<lparr>ctx = c, trace = trace s @ [Raw_open image0 a_ssize]\<rparr>)))"
  unfolding tsk_img_open_valid [OF assms(2,1)]
  by (simp add: open_typed_def call_split_open_def call_raw_open_def run_probe_reset)

theorem raw_types_route_by_path_count_witness:
  "[Some ''a.001'', Some ''a.002''] = Some ''a.001'' # [Some ''a.002'']
   \<and> (512 :: 32 word) mod 512 = 0
   \<and> 1 < length [Some ''a.001'', Some ''a.002'']
   \<and> tsk_img_open sample_build
        (sample_backends silent silent (sample_probe None (TSK_ERR_OTHER 4))
           (sample_probe (Some h_split) TSK_ERR_NONE) 0)
        [Some ''a.001'', Some ''a.002''] TSK_IMG_TYPE_RAW_SING 512 start_state
      = (Some h_split, \<lparr>ctx = no_error,
           trace = [Split_open 2 [Some ''a.001'', Some ''a.002''] 512]\<rparr>)
   \<and> [Some ''a.001''] = Some ''a.001'' # [] \<and> length [Some ''a.001''] = 1
   \<and> tsk_img_open sample_build
        (sample_backends silent silent (sample_probe None (TSK_ERR_OTHER 4))
           (sample_probe (Some h_split) TSK_ERR_NONE) 0)
        [Some ''a.001''] TSK_IMG_TYPE_RAW_SPLIT 512 start_state
      = (None, \<lparr>ctx = \<lparr>tsk_errno = TSK_ERR_OTHER 4, tsk_errstr = ''backend failure'',
                           tsk_errstr2 = []\<rparr>,
                trace = [Raw_open ''a.001'' 512]\<rparr>)"
  using raw_types_route_by_path_count [of "[Some ''a.001'', Some ''a.002'']" "''a.001''"
      "[Some ''a.002'']" 512 sample_build
      "sample_backends silent silent (sample_probe None (TSK_ERR_OTHER 4))
           (sample_probe (Some h_split) TSK_ERR_NONE) 0" start_state]
    raw_types_route_by_path_count [of "[Some ''a.001'']" "''a.001''" "[]" 512 sample_build
      "sample_backends silent silent (sample_probe None (TSK_ERR_OTHER 4))
           (sample_probe (Some h_split) TSK_ERR_NONE) 0" start_state]
  by (simp add: sample_defs)

text \<open>
  The sector size 100 is rejected by the validation, whatever the backend would do with
  it: here the split backend opens the two paths and the raw backend the single one,
  and the dispatcher returns no handle for either.
\<close>

theorem raw_types_invalid_size_counterexample:
  "fst (tsk_img_open sample_build
        (sample_backends silent silent (sample_probe (Some h_raw) TSK_ERR_NONE)
           (sample_probe (Some h_split) TSK_ERR_NONE) 0)
        [Some ''a.001'', Some ''a.002''] TSK_IMG_TYPE_RAW_SING 100 start_state) = None
   \<and> fst (split_open
        (sample_backends silent silent (sample_probe (Some h_raw) TSK_ERR_NONE)
           (sample_probe (Some h_split) TSK_ERR_NONE) 0)
        2 [Some ''a.001'', Some ''a.002''] 100 no_error) = Some h_split
   \<and> fst (tsk_img_open sample_build
        (sample_backends silent silent (sample_probe (Some h_raw) TSK_ERR_NONE)
           (sample_probe (Some h_split) TSK_ERR_NONE) 0)
        [Some ''a.001''] TSK_IMG_TYPE_RAW_SPLIT 100 start_state) = None
   \<and> fst (raw_open
        (sample_backends silent silent (sample_probe (Some h_raw) TSK_ERR_NONE)
           (sample_probe (Some h_split) TSK_ERR_NONE) 0)
        ''a.001'' 100 no_error) = Some h_raw"
  by (simp add: tsk_img_open_def state_defs sample_defs Let_def)

text \<open>
  C1. During autodetection a non-raw probe that returns no handle does not end the call,
  whatever error it leaves: the error context is reset and the next backend is called.
  When the AFF probe returns no handle, the EWF probe is called with the reset context,
  and a handle it returns is the result. When the EWF probe returns no handle after an
  AFF match, the AFF handle is returned with the reset context. When every compiled-in
  probe returns no handle, the raw or split backend is called with the reset context:
  its handle or its error is the result, and with neither the call goes on to the stat
  of the first path.
\<close>

theorem declined_probe_is_reset_and_next_backend_called:
  assumes "images = Some image0 # rest" and "a_ssize mod 512 = 0"
  shows "(HAVE_LIBAFFLIB cfg \<and> HAVE_LIBEWF cfg
          \<and> fst (aff_open env images a_ssize no_error) = None
          \<and> ewf_open env (int (length images)) images a_ssize no_error = (Some he, c2)
        \<longrightarrow> tsk_img_open cfg env images TSK_IMG_TYPE_DETECT a_ssize s
             = (Some he, \<lparr>ctx = c2,
                  trace = trace s @ [Aff_open images a_ssize,
                                     Ewf_open (int (length images)) images a_ssize]\<rparr>))
    \<and> (HAVE_LIBAFFLIB cfg \<and> HAVE_LIBEWF cfg
          \<and> aff_open env images a_ssize no_error = (Some ha, c1)
          \<and> itype ha \<noteq> TSK_IMG_TYPE_AFF_ANY
          \<and> fst (ewf_open env (int (length images)) images a_ssize c1) = None
        \<longrightarrow> tsk_img_open cfg env images TSK_IMG_TYPE_DETECT a_ssize s
             = (Some ha, \<lparr>ctx = no_error,
                  trace = trace s @ [Aff_open images a_ssize,
                                     Ewf_open (int (length images)) images a_ssize]\<rparr>))
    \<and> ((HAVE_LIBAFFLIB cfg \<longrightarrow> fst (aff_open env images a_ssize no_error) = None)
          \<and> (HAVE_LIBEWF cfg \<longrightarrow>
                fst (ewf_open env (int (length images)) images a_ssize no_error) = None)
          \<and> (if int (length images) = 1 then raw_open env image0 a_ssize no_error
              else split_open env (int (length images)) images a_ssize no_error) = (r, c)
        \<longrightarrow> tsk_img_open cfg env images TSK_IMG_TYPE_DETECT a_ssize s
             = (if r \<noteq> None \<or> tsk_errno c \<noteq> TSK_ERR_NONE
                then (r, \<lparr>ctx = c,
                       trace = trace s
                         @ (if HAVE_LIBAFFLIB cfg then [Aff_open images a_ssize] else [])
                         @ (if HAVE_LIBEWF cfg
                            then [Ewf_open (int (length images)) images a_ssize] else [])
                         @ [if int (length images) = 1 then Raw_open image0 a_ssize
                            else Split_open (int (length images)) images a_ssize]\<rparr>)
                else detect_stat cfg env image0
                       \<lparr>ctx = c,
                        trace = trace s
                         @ (if HAVE_LIBAFFLIB cfg then [Aff_open images a_ssize] else [])
                         @ (if HAVE_LIBEWF cfg
                            then [Ewf_open (int (length images)) images a_ssize] else [])
                         @ [if int (length images) = 1 then Raw_open image0 a_ssize
                            else Split_open (int (length images)) images a_ssize]\<rparr>))"
proof -
  let ?n = "int (length images)"
  let ?s0 = "tsk_error_reset (tsk_error_reset s)"
  have c0: "ctx ?s0 = no_error" by (rule ctx_reset)
  have open_eq: "tsk_img_open cfg env images TSK_IMG_TYPE_DETECT a_ssize s
      = detect cfg env ?n images image0 a_ssize (tsk_error_reset s)"
    by (simp add: tsk_img_open_valid [OF assms(2,1)])
  have p1: "HAVE_LIBAFFLIB cfg \<and> HAVE_LIBEWF cfg
          \<and> fst (aff_open env images a_ssize no_error) = None
          \<and> ewf_open env ?n images a_ssize no_error = (Some he, c2)
        \<longrightarrow> tsk_img_open cfg env images TSK_IMG_TYPE_DETECT a_ssize s
             = (Some he, \<lparr>ctx = c2,
                  trace = trace s @ [Aff_open images a_ssize, Ewf_open ?n images a_ssize]\<rparr>)"
  proof
    assume h: "HAVE_LIBAFFLIB cfg \<and> HAVE_LIBEWF cfg
          \<and> fst (aff_open env images a_ssize no_error) = None
          \<and> ewf_open env ?n images a_ssize no_error = (Some he, c2)"
    then obtain e where "aff_open env images a_ssize (ctx ?s0) = (None, e)"
      by (cases "aff_open env images a_ssize no_error") (simp add: ctx_reset)
    from detect_aff_declined [OF _ this, of cfg] h
    have A: "detect_aff cfg env images a_ssize ?s0
        = (None, \<lparr>ctx = no_error, trace = trace ?s0 @ [Aff_open images a_ssize]\<rparr>)"
      by simp
    have "ewf_open env ?n images a_ssize
        (ctx \<lparr>ctx = no_error, trace = trace ?s0 @ [Aff_open images a_ssize]\<rparr>) = (Some he, c2)"
      using h by simp
    from detect_returns_ewf [OF _ A this, of image0] h
    show "tsk_img_open cfg env images TSK_IMG_TYPE_DETECT a_ssize s
             = (Some he, \<lparr>ctx = c2,
                  trace = trace s @ [Aff_open images a_ssize, Ewf_open ?n images a_ssize]\<rparr>)"
      by (simp add: open_eq trace_reset)
  qed
  have p2: "HAVE_LIBAFFLIB cfg \<and> HAVE_LIBEWF cfg
          \<and> aff_open env images a_ssize no_error = (Some ha, c1)
          \<and> itype ha \<noteq> TSK_IMG_TYPE_AFF_ANY
          \<and> fst (ewf_open env ?n images a_ssize c1) = None
        \<longrightarrow> tsk_img_open cfg env images TSK_IMG_TYPE_DETECT a_ssize s
             = (Some ha, \<lparr>ctx = no_error,
                  trace = trace s @ [Aff_open images a_ssize, Ewf_open ?n images a_ssize]\<rparr>)"
  proof
    assume h: "HAVE_LIBAFFLIB cfg \<and> HAVE_LIBEWF cfg
          \<and> aff_open env images a_ssize no_error = (Some ha, c1)
          \<and> itype ha \<noteq> TSK_IMG_TYPE_AFF_ANY
          \<and> fst (ewf_open env ?n images a_ssize c1) = None"
    then have "HAVE_LIBEWF cfg \<longrightarrow> fst (ewf_open env ?n images a_ssize c1) = None" by simp
    from detect_returns_aff [OF _ _ _ this, of ha image0 "tsk_error_reset s"] h
    show "tsk_img_open cfg env images TSK_IMG_TYPE_DETECT a_ssize s
             = (Some ha, \<lparr>ctx = no_error,
                  trace = trace s @ [Aff_open images a_ssize, Ewf_open ?n images a_ssize]\<rparr>)"
      by (simp add: open_eq trace_reset)
  qed
  let ?probes = "(if HAVE_LIBAFFLIB cfg then [Aff_open images a_ssize] else [])
                         @ (if HAVE_LIBEWF cfg then [Ewf_open ?n images a_ssize] else [])"
  let ?fb = "if ?n = 1 then Raw_open image0 a_ssize else Split_open ?n images a_ssize"
  have p3: "(HAVE_LIBAFFLIB cfg \<longrightarrow> fst (aff_open env images a_ssize no_error) = None)
          \<and> (HAVE_LIBEWF cfg \<longrightarrow> fst (ewf_open env ?n images a_ssize no_error) = None)
          \<and> (if ?n = 1 then raw_open env image0 a_ssize no_error
              else split_open env ?n images a_ssize no_error) = (r, c)
        \<longrightarrow> tsk_img_open cfg env images TSK_IMG_TYPE_DETECT a_ssize s
             = (if r \<noteq> None \<or> tsk_errno c \<noteq> TSK_ERR_NONE
                then (r, \<lparr>ctx = c, trace = trace s @ ?probes @ [?fb]\<rparr>)
                else detect_stat cfg env image0 \<lparr>ctx = c, trace = trace s @ ?probes @ [?fb]\<rparr>)"
  proof
    assume h: "(HAVE_LIBAFFLIB cfg \<longrightarrow> fst (aff_open env images a_ssize no_error) = None)
          \<and> (HAVE_LIBEWF cfg \<longrightarrow> fst (ewf_open env ?n images a_ssize no_error) = None)
          \<and> (if ?n = 1 then raw_open env image0 a_ssize no_error
              else split_open env ?n images a_ssize no_error) = (r, c)"
    define s2 where "s2 = \<lparr>ctx = no_error, trace = trace s @ ?probes\<rparr>"
    have c2: "ctx s2 = no_error" and t2: "trace s2 = trace s @ ?probes"
      by (simp_all add: s2_def)
    have P: "detect_ewf cfg env ?n images a_ssize (detect_aff cfg env images a_ssize ?s0)
        = Inr (None, s2)"
      using probes_declined [OF _ _ c0, of cfg env images a_ssize ?n] h
      by (simp add: s2_def trace_reset)
    have "(if ?n = 1 then raw_open env image0 a_ssize (ctx s2)
            else split_open env ?n images a_ssize (ctx s2)) = (r, c)"
      using h c2 by (auto split: if_splits)
    note R = detect_raw_result [OF this]
    have D: "detect cfg env ?n images image0 a_ssize (tsk_error_reset s)
        = (case detect_raw env ?n images image0 a_ssize s2 of
             Inl x \<Rightarrow> x | Inr s3 \<Rightarrow> detect_stat cfg env image0 s3)"
      unfolding detect_def P by simp
    show "tsk_img_open cfg env images TSK_IMG_TYPE_DETECT a_ssize s
             = (if r \<noteq> None \<or> tsk_errno c \<noteq> TSK_ERR_NONE
                then (r, \<lparr>ctx = c, trace = trace s @ ?probes @ [?fb]\<rparr>)
                else detect_stat cfg env image0 \<lparr>ctx = c, trace = trace s @ ?probes @ [?fb]\<rparr>)"
      unfolding open_eq D R t2 by simp
  qed
  show ?thesis using p1 p2 p3 unfolding append_assoc by (intro conjI)
qed


theorem declined_probe_is_reset_and_next_backend_called_witness:
  "[Some ''image.dd''] = Some ''image.dd'' # [] \<and> (0 :: 32 word) mod 512 = 0
   \<and> HAVE_LIBAFFLIB sample_build \<and> HAVE_LIBEWF sample_build
   \<and> aff_open (sample_backends (sample_probe None (TSK_ERR_OTHER 4))
          (sample_probe (Some h_ewf) TSK_ERR_NONE) silent silent 0)
        [Some ''image.dd''] 0 no_error
      = (None, \<lparr>tsk_errno = TSK_ERR_OTHER 4, tsk_errstr = ''backend failure'', tsk_errstr2 = []\<rparr>)
   \<and> tsk_img_open sample_build (sample_backends (sample_probe None (TSK_ERR_OTHER 4))
          (sample_probe (Some h_ewf) TSK_ERR_NONE) silent silent 0)
        [Some ''image.dd''] TSK_IMG_TYPE_DETECT 0 start_state
      = (Some h_ewf, \<lparr>ctx = no_error,
           trace = [Aff_open [Some ''image.dd''] 0, Ewf_open 1 [Some ''image.dd''] 0]\<rparr>)
   \<and> itype h_aff \<noteq> TSK_IMG_TYPE_AFF_ANY
   \<and> ewf_open (sample_backends (sample_probe (Some h_aff) TSK_ERR_NONE)
          (sample_probe None (TSK_ERR_OTHER 5)) silent silent 0)
        1 [Some ''image.dd''] 0 no_error
      = (None, \<lparr>tsk_errno = TSK_ERR_OTHER 5, tsk_errstr = ''backend failure'', tsk_errstr2 = []\<rparr>)
   \<and> tsk_img_open sample_build (sample_backends (sample_probe (Some h_aff) TSK_ERR_NONE)
          (sample_probe None (TSK_ERR_OTHER 5)) silent silent 0)
        [Some ''image.dd''] TSK_IMG_TYPE_DETECT 0 start_state
      = (Some h_aff, \<lparr>ctx = no_error,
           trace = [Aff_open [Some ''image.dd''] 0, Ewf_open 1 [Some ''image.dd''] 0]\<rparr>)
   \<and> tsk_img_open sample_build (sample_backends (sample_probe None (TSK_ERR_OTHER 4))
          (sample_probe None (TSK_ERR_OTHER 5)) (sample_probe (Some h_raw) TSK_ERR_NONE) silent 0)
        [Some ''image.dd''] TSK_IMG_TYPE_DETECT 0 start_state
      = (Some h_raw, \<lparr>ctx = no_error,
           trace = [Aff_open [Some ''image.dd''] 0, Ewf_open 1 [Some ''image.dd''] 0,
                    Raw_open ''image.dd'' 0]\<rparr>)"
proof -
  let ?images = "[Some ''image.dd'']"
  let ?envA = "sample_backends (sample_probe None (TSK_ERR_OTHER 4))
          (sample_probe (Some h_ewf) TSK_ERR_NONE) silent silent 0"
  let ?envB = "sample_backends (sample_probe (Some h_aff) TSK_ERR_NONE)
          (sample_probe None (TSK_ERR_OTHER 5)) silent silent 0"
  let ?envC = "sample_backends (sample_probe None (TSK_ERR_OTHER 4))
          (sample_probe None (TSK_ERR_OTHER 5)) (sample_probe (Some h_raw) TSK_ERR_NONE) silent 0"
  have h1: "?images = Some ''image.dd'' # []" by simp
  have h2: "(0 :: 32 word) mod 512 = 0" by simp
  have b: "HAVE_LIBAFFLIB sample_build" "HAVE_LIBEWF sample_build"
    by (simp_all add: sample_build_def)
  have aA: "aff_open ?envA ?images 0 no_error
      = (None, \<lparr>tsk_errno = TSK_ERR_OTHER 4, tsk_errstr = ''backend failure'', tsk_errstr2 = []\<rparr>)"
    by (simp add: sample_backends_def sample_probe_def no_error_def)
  have eA: "ewf_open ?envA (int (length ?images)) ?images 0 no_error = (Some h_ewf, no_error)"
    by (simp add: sample_backends_def sample_probe_def)
  have A: "tsk_img_open sample_build ?envA ?images TSK_IMG_TYPE_DETECT 0 start_state
      = (Some h_ewf, \<lparr>ctx = no_error,
           trace = [Aff_open ?images 0, Ewf_open 1 ?images 0]\<rparr>)"
    using declined_probe_is_reset_and_next_backend_called [OF h1 h2, where cfg = sample_build
        and env = ?envA and he = h_ewf and ?c2.0 = no_error and s = start_state,
        THEN conjunct1] b aA eA
    by (simp add: start_state_def)
  have tB: "itype h_aff \<noteq> TSK_IMG_TYPE_AFF_ANY" by (simp add: h_aff_def)
  have aB: "aff_open ?envB ?images 0 no_error = (Some h_aff, no_error)"
    by (simp add: sample_backends_def sample_probe_def)
  have eB: "ewf_open ?envB 1 ?images 0 no_error
      = (None, \<lparr>tsk_errno = TSK_ERR_OTHER 5, tsk_errstr = ''backend failure'', tsk_errstr2 = []\<rparr>)"
    by (simp add: sample_backends_def sample_probe_def no_error_def)
  have B: "tsk_img_open sample_build ?envB ?images TSK_IMG_TYPE_DETECT 0 start_state
      = (Some h_aff, \<lparr>ctx = no_error,
           trace = [Aff_open ?images 0, Ewf_open 1 ?images 0]\<rparr>)"
    using declined_probe_is_reset_and_next_backend_called [OF h1 h2, where cfg = sample_build
        and env = ?envB and ha = h_aff and ?c1.0 = no_error and s = start_state,
        THEN conjunct2, THEN conjunct1] b tB aB eB
    by (simp add: start_state_def)
  have aC: "fst (aff_open ?envC ?images 0 no_error) = None"
    and eC: "fst (ewf_open ?envC (int (length ?images)) ?images 0 no_error) = None"
    and rC: "raw_open ?envC ''image.dd'' 0 no_error = (Some h_raw, no_error)"
    by (simp_all add: sample_backends_def sample_probe_def)
  have C: "tsk_img_open sample_build ?envC ?images TSK_IMG_TYPE_DETECT 0 start_state
      = (Some h_raw, \<lparr>ctx = no_error,
           trace = [Aff_open ?images 0, Ewf_open 1 ?images 0, Raw_open ''image.dd'' 0]\<rparr>)"
    using declined_probe_is_reset_and_next_backend_called [OF h1 h2, where cfg = sample_build
        and env = ?envC and r = "Some h_raw" and c = no_error and s = start_state,
        THEN conjunct2, THEN conjunct2] b aC eC rC
    by (simp add: start_state_def)
  from h1 h2 b aA A tB eB B C show ?thesis by (intro conjI)
qed

text \<open>
  The AFF probe returns no handle and leaves an error code; the call goes on, the raw
  backend opens the file, and the call returns that handle with no error set.
\<close>

theorem probe_error_not_propagated_counterexample:
  "fst (aff_open (sample_backends (sample_probe None (TSK_ERR_OTHER 4)) silent
          (sample_probe (Some h_raw) TSK_ERR_NONE) silent 0)
        [Some ''image.dd''] 0 no_error) = None
   \<and> tsk_errno (snd (aff_open (sample_backends (sample_probe None (TSK_ERR_OTHER 4)) silent
          (sample_probe (Some h_raw) TSK_ERR_NONE) silent 0)
        [Some ''image.dd''] 0 no_error)) = TSK_ERR_OTHER 4
   \<and> tsk_img_open sample_build (sample_backends (sample_probe None (TSK_ERR_OTHER 4)) silent
          (sample_probe (Some h_raw) TSK_ERR_NONE) silent 0)
        [Some ''image.dd''] TSK_IMG_TYPE_DETECT 0 start_state
      = (Some h_raw, \<lparr>ctx = no_error,
           trace = [Aff_open [Some ''image.dd''] 0, Ewf_open 1 [Some ''image.dd''] 0,
                    Raw_open ''image.dd'' 0]\<rparr>)"
  by (simp add: tsk_img_open_def detect_def detect_aff_def detect_ewf_def detect_raw_def
      call_defs state_defs sample_defs Let_def)

text \<open>
  C2. In a build with both libraries, when the AFF probe returns a handle that is not of
  the type \<open>TSK_IMG_TYPE_AFF_ANY\<close> and the EWF probe returns a handle as well, the
  call returns no handle; the code is \<open>TSK_ERR_IMG_UNKTYPE\<close>, the primary message
  \<open>tsk_errstr\<close> is "EWF or AFF", the secondary message \<open>tsk_errstr2\<close> is empty,
  and the two handles have been closed, the AFF handle first. No raw or split backend
  is called. The message is whole in a buffer of at least 11 characters.
\<close>

theorem ambiguous_match_is_unktype:
  assumes "HAVE_LIBAFFLIB cfg" and "HAVE_LIBEWF cfg"
    and "images = Some image0 # rest" and "a_ssize mod 512 = 0"
    and "aff_open env images a_ssize no_error = (Some ha, c1)"
    and "itype ha \<noteq> TSK_IMG_TYPE_AFF_ANY"
    and "ewf_open env (int (length images)) images a_ssize c1 = (Some he, c2)"
    and "11 \<le> TSK_ERRSTR_L cfg"
  shows "tsk_img_open cfg env images TSK_IMG_TYPE_DETECT a_ssize s
    = (None,
       \<lparr>ctx = \<lparr>tsk_errno = TSK_ERR_IMG_UNKTYPE, tsk_errstr = ''EWF or AFF'', tsk_errstr2 = []\<rparr>,
        trace = trace s @ [Aff_open images a_ssize,
                           Ewf_open (int (length images)) images a_ssize,
                           Close ha, Close he]\<rparr>)"
proof -
  let ?s0 = "tsk_error_reset (tsk_error_reset s)"
  have a: "aff_open env images a_ssize (ctx ?s0) = (Some ha, c1)"
    using assms(5) by (simp add: ctx_reset)
  note A = detect_aff_match [OF assms(1) a assms(6)]
  have e: "ewf_open env (int (length images)) images a_ssize
      (ctx \<lparr>ctx = c1, trace = trace s @ [Aff_open images a_ssize]\<rparr>) = (Some he, c2)"
    using assms(7) by simp
  note E = detect_ewf_second [OF assms(2) e, of "''AFF''" ha]
  show ?thesis
    unfolding tsk_img_open_valid [OF assms(4,3)] using assms(8)
    by (simp add: detect_def A E snprintf_errstr_def trace_reset)
qed

theorem ambiguous_match_is_unktype_witness:
  "HAVE_LIBAFFLIB sample_build \<and> HAVE_LIBEWF sample_build
   \<and> [Some ''image.E01''] = Some ''image.E01'' # [] \<and> (0 :: 32 word) mod 512 = 0
   \<and> aff_open (sample_backends (sample_probe (Some h_aff) TSK_ERR_NONE)
          (sample_probe (Some h_ewf) TSK_ERR_NONE) silent silent 0)
        [Some ''image.E01''] 0 no_error = (Some h_aff, no_error)
   \<and> itype h_aff \<noteq> TSK_IMG_TYPE_AFF_ANY
   \<and> ewf_open (sample_backends (sample_probe (Some h_aff) TSK_ERR_NONE)
          (sample_probe (Some h_ewf) TSK_ERR_NONE) silent silent 0)
        (int (length [Some ''image.E01''])) [Some ''image.E01''] 0 no_error = (Some h_ewf, no_error)
   \<and> 11 \<le> TSK_ERRSTR_L sample_build
   \<and> tsk_img_open sample_build (sample_backends (sample_probe (Some h_aff) TSK_ERR_NONE)
          (sample_probe (Some h_ewf) TSK_ERR_NONE) silent silent 0)
        [Some ''image.E01''] TSK_IMG_TYPE_DETECT 0 start_state
      = (None,
         \<lparr>ctx = \<lparr>tsk_errno = TSK_ERR_IMG_UNKTYPE, tsk_errstr = ''EWF or AFF'', tsk_errstr2 = []\<rparr>,
          trace = [Aff_open [Some ''image.E01''] 0, Ewf_open 1 [Some ''image.E01''] 0,
                   Close h_aff, Close h_ewf]\<rparr>)"
  using ambiguous_match_is_unktype [of sample_build "[Some ''image.E01'']" "''image.E01''" "[]" 0
      "sample_backends (sample_probe (Some h_aff) TSK_ERR_NONE)
          (sample_probe (Some h_ewf) TSK_ERR_NONE) silent silent 0"
      h_aff no_error h_ewf no_error start_state]
  by (simp add: sample_defs)

text \<open>
  Both probes match; afterwards the secondary message is empty and so holds neither
  format name. The names are in the primary message.
\<close>

theorem ambiguous_match_secondary_message_counterexample:
  "tsk_errstr2 (ctx (snd (tsk_img_open sample_build
        (sample_backends (sample_probe (Some h_aff) TSK_ERR_NONE)
          (sample_probe (Some h_ewf) TSK_ERR_NONE) silent silent 0)
        [Some ''image.E01''] TSK_IMG_TYPE_DETECT 0 start_state))) = []
   \<and> \<not> sublist ''EWF'' (tsk_errstr2 (ctx (snd (tsk_img_open sample_build
        (sample_backends (sample_probe (Some h_aff) TSK_ERR_NONE)
          (sample_probe (Some h_ewf) TSK_ERR_NONE) silent silent 0)
        [Some ''image.E01''] TSK_IMG_TYPE_DETECT 0 start_state))))
   \<and> \<not> sublist ''AFF'' (tsk_errstr2 (ctx (snd (tsk_img_open sample_build
        (sample_backends (sample_probe (Some h_aff) TSK_ERR_NONE)
          (sample_probe (Some h_ewf) TSK_ERR_NONE) silent silent 0)
        [Some ''image.E01''] TSK_IMG_TYPE_DETECT 0 start_state))))
   \<and> tsk_errstr (ctx (snd (tsk_img_open sample_build
        (sample_backends (sample_probe (Some h_aff) TSK_ERR_NONE)
          (sample_probe (Some h_ewf) TSK_ERR_NONE) silent silent 0)
        [Some ''image.E01''] TSK_IMG_TYPE_DETECT 0 start_state))) = ''EWF or AFF''"
  by (simp add: tsk_img_open_def detect_def detect_aff_def detect_ewf_def
      call_defs state_defs sample_defs Let_def)

text \<open>
  C5. During autodetection, when exactly one non-raw backend matches, the call returns
  the handle of that backend and calls neither the raw nor the split backend. The
  matches are: the AFF probe returns a handle that is not of the type
  \<open>TSK_IMG_TYPE_AFF_ANY\<close> and the EWF probe, where compiled in, returns none; or the
  EWF probe returns a handle and the AFF probe is not compiled in, or returns no handle,
  or returns a handle of the type \<open>TSK_IMG_TYPE_AFF_ANY\<close>.
\<close>

theorem single_match_is_returned:
  assumes "images = Some image0 # rest" and "a_ssize mod 512 = 0"
    and "(HAVE_LIBAFFLIB cfg
            \<and> fst (aff_open env images a_ssize no_error) = Some h
            \<and> itype h \<noteq> TSK_IMG_TYPE_AFF_ANY
            \<and> (HAVE_LIBEWF cfg \<longrightarrow>
                 fst (ewf_open env (int (length images)) images a_ssize
                        (snd (aff_open env images a_ssize no_error))) = None))
       \<or> (HAVE_LIBEWF cfg \<and> \<not> HAVE_LIBAFFLIB cfg
            \<and> fst (ewf_open env (int (length images)) images a_ssize no_error) = Some h)
       \<or> (HAVE_LIBEWF cfg \<and> HAVE_LIBAFFLIB cfg
            \<and> fst (aff_open env images a_ssize no_error) = None
            \<and> fst (ewf_open env (int (length images)) images a_ssize no_error) = Some h)
       \<or> (HAVE_LIBEWF cfg \<and> HAVE_LIBAFFLIB cfg
            \<and> fst (aff_open env images a_ssize no_error) = Some h0
            \<and> itype h0 = TSK_IMG_TYPE_AFF_ANY
            \<and> fst (ewf_open env (int (length images)) images a_ssize
                        (snd (aff_open env images a_ssize no_error))) = Some h)"
  shows "fst (tsk_img_open cfg env images TSK_IMG_TYPE_DETECT a_ssize s) = Some h
       \<and> (\<exists>evs. trace (snd (tsk_img_open cfg env images TSK_IMG_TYPE_DETECT a_ssize s))
                  = trace s @ evs
                \<and> filter is_raw_or_split evs = [])"
proof -
  let ?n = "int (length images)"
  let ?s0 = "tsk_error_reset s"
  have open_eq: "tsk_img_open cfg env images TSK_IMG_TYPE_DETECT a_ssize s
      = detect cfg env ?n images image0 a_ssize ?s0"
    by (simp add: tsk_img_open_valid [OF assms(2,1)])
  consider
    (aff) "HAVE_LIBAFFLIB cfg" "fst (aff_open env images a_ssize no_error) = Some h"
      "itype h \<noteq> TSK_IMG_TYPE_AFF_ANY"
      "HAVE_LIBEWF cfg \<longrightarrow> fst (ewf_open env ?n images a_ssize
          (snd (aff_open env images a_ssize no_error))) = None"
  | (ewf_only) "HAVE_LIBEWF cfg" "\<not> HAVE_LIBAFFLIB cfg"
      "fst (ewf_open env ?n images a_ssize no_error) = Some h"
  | (aff_declined) "HAVE_LIBEWF cfg" "HAVE_LIBAFFLIB cfg"
      "fst (aff_open env images a_ssize no_error) = None"
      "fst (ewf_open env ?n images a_ssize no_error) = Some h"
  | (aff_any) "HAVE_LIBEWF cfg" "HAVE_LIBAFFLIB cfg"
      "fst (aff_open env images a_ssize no_error) = Some h0"
      "itype h0 = TSK_IMG_TYPE_AFF_ANY"
      "fst (ewf_open env ?n images a_ssize (snd (aff_open env images a_ssize no_error))) = Some h"
    using assms(3) by (elim disjE conjE) simp_all
  then show ?thesis
  proof cases
    case aff
    obtain c1 where a: "aff_open env images a_ssize no_error = (Some h, c1)"
      using aff(2) by (cases "aff_open env images a_ssize no_error") simp
    with aff(4) have "HAVE_LIBEWF cfg \<longrightarrow> fst (ewf_open env ?n images a_ssize c1) = None"
      by simp
    from detect_returns_aff [OF aff(1) a aff(3) this, of image0 ?s0]
    show ?thesis by (simp add: open_eq trace_reset)
  next
    case ewf_only
    obtain c2 where e: "ewf_open env ?n images a_ssize no_error = (Some h, c2)"
      using ewf_only(3) by (cases "ewf_open env ?n images a_ssize no_error") simp
    have A: "detect_aff cfg env images a_ssize (tsk_error_reset ?s0) = (None, tsk_error_reset ?s0)"
      using ewf_only(2) by (rule detect_aff_absent)
    have "ewf_open env ?n images a_ssize (ctx (tsk_error_reset ?s0)) = (Some h, c2)"
      using e by (simp add: ctx_reset)
    from detect_returns_ewf [OF ewf_only(1) A this, of image0]
    show ?thesis by (simp add: open_eq trace_reset)
  next
    case aff_declined
    obtain c1 where a: "aff_open env images a_ssize (ctx (tsk_error_reset ?s0)) = (None, c1)"
      using aff_declined(3)
      by (cases "aff_open env images a_ssize no_error") (simp add: ctx_reset)
    obtain c2 where e: "ewf_open env ?n images a_ssize no_error = (Some h, c2)"
      using aff_declined(4) by (cases "ewf_open env ?n images a_ssize no_error") simp
    note A = detect_aff_declined [OF aff_declined(2) a]
    have "ewf_open env ?n images a_ssize
        (ctx \<lparr>ctx = no_error, trace = trace (tsk_error_reset ?s0) @ [Aff_open images a_ssize]\<rparr>)
          = (Some h, c2)"
      using e by simp
    from detect_returns_ewf [OF aff_declined(1) A this, of image0]
    show ?thesis by (simp add: open_eq trace_reset)
  next
    case aff_any
    obtain c1 where a0: "aff_open env images a_ssize no_error = (Some h0, c1)"
      using aff_any(3) by (cases "aff_open env images a_ssize no_error") simp
    then have a: "aff_open env images a_ssize (ctx (tsk_error_reset ?s0)) = (Some h0, c1)"
      by (simp add: ctx_reset)
    obtain c2 where e: "ewf_open env ?n images a_ssize c1 = (Some h, c2)"
      using aff_any(5) a0 by (cases "ewf_open env ?n images a_ssize c1") simp
    note A = detect_aff_any [OF aff_any(2) a aff_any(4)]
    have "ewf_open env ?n images a_ssize
        (ctx \<lparr>ctx = c1, trace = trace (tsk_error_reset ?s0) @ [Aff_open images a_ssize, Close h0]\<rparr>)
          = (Some h, c2)"
      using e by simp
    from detect_returns_ewf [OF aff_any(1) A this, of image0]
    show ?thesis by (simp add: open_eq trace_reset)
  qed
qed

theorem single_match_is_returned_witness:
  "[Some ''image.E01''] = Some ''image.E01'' # [] \<and> (0 :: 32 word) mod 512 = 0
   \<and> HAVE_LIBEWF sample_build \<and> HAVE_LIBAFFLIB sample_build
   \<and> fst (aff_open (sample_backends (sample_probe (Some h_any) TSK_ERR_NONE)
              (sample_probe (Some h_ewf) TSK_ERR_NONE) (sample_probe (Some h_raw) TSK_ERR_NONE)
              silent 0) [Some ''image.E01''] 0 no_error) = Some h_any
   \<and> itype h_any = TSK_IMG_TYPE_AFF_ANY
   \<and> fst (tsk_img_open sample_build (sample_backends (sample_probe (Some h_any) TSK_ERR_NONE)
              (sample_probe (Some h_ewf) TSK_ERR_NONE) (sample_probe (Some h_raw) TSK_ERR_NONE)
              silent 0) [Some ''image.E01''] TSK_IMG_TYPE_DETECT 0 start_state) = Some h_ewf
   \<and> trace (snd (tsk_img_open sample_build (sample_backends (sample_probe (Some h_any) TSK_ERR_NONE)
              (sample_probe (Some h_ewf) TSK_ERR_NONE) (sample_probe (Some h_raw) TSK_ERR_NONE)
              silent 0) [Some ''image.E01''] TSK_IMG_TYPE_DETECT 0 start_state))
       = [Aff_open [Some ''image.E01''] 0, Close h_any, Ewf_open 1 [Some ''image.E01''] 0]
   \<and> itype h_aff \<noteq> TSK_IMG_TYPE_AFF_ANY
   \<and> fst (tsk_img_open sample_build (sample_backends (sample_probe (Some h_aff) TSK_ERR_NONE)
              (sample_probe None (TSK_ERR_OTHER 5)) (sample_probe (Some h_raw) TSK_ERR_NONE)
              silent 0) [Some ''image.aff''] TSK_IMG_TYPE_DETECT 0 start_state) = Some h_aff"
proof -
  let ?env = "sample_backends (sample_probe (Some h_any) TSK_ERR_NONE)
              (sample_probe (Some h_ewf) TSK_ERR_NONE) (sample_probe (Some h_raw) TSK_ERR_NONE)
              silent 0"
  let ?env2 = "sample_backends (sample_probe (Some h_aff) TSK_ERR_NONE)
              (sample_probe None (TSK_ERR_OTHER 5)) (sample_probe (Some h_raw) TSK_ERR_NONE)
              silent 0"
  have T: "fst (tsk_img_open sample_build ?env [Some ''image.E01''] TSK_IMG_TYPE_DETECT 0 start_state)
      = Some h_ewf"
    using single_match_is_returned [of "[Some ''image.E01'']" "''image.E01''" "[]" 0 sample_build
        ?env h_ewf h_any start_state]
    by (simp add: sample_defs)
  have T2: "fst (tsk_img_open sample_build ?env2 [Some ''image.aff''] TSK_IMG_TYPE_DETECT 0 start_state)
      = Some h_aff"
    using single_match_is_returned [of "[Some ''image.aff'']" "''image.aff''" "[]" 0 sample_build
        ?env2 h_aff h_any start_state]
    by (simp add: sample_defs)
  have tr: "trace (snd (tsk_img_open sample_build ?env [Some ''image.E01''] TSK_IMG_TYPE_DETECT 0 start_state))
       = [Aff_open [Some ''image.E01''] 0, Close h_any, Ewf_open 1 [Some ''image.E01''] 0]"
    by (simp add: tsk_img_open_def detect_def detect_aff_def detect_ewf_def
      call_defs state_defs sample_defs Let_def)
  show ?thesis using T T2 tr by (simp add: sample_defs)
qed


text \<open>
  C7. During autodetection, when no non-raw backend matches (each is absent, returns no
  handle, or is the AFF backend with a handle of the type \<open>TSK_IMG_TYPE_AFF_ANY\<close>)
  and the raw or split fallback returns no handle and leaves no error code, the call
  stats the first path and returns no handle. If the stat fails (and, in a Windows or
  Cygwin build, the path does not start with the device-object prefix), the code is
  \<open>TSK_ERR_IMG_STAT\<close> and the primary message is the text made of the path,
  \<open>" : "\<close> and the reason string, cut to the \<open>TSK_ERRSTR_L - 1\<close> characters that
  the buffer holds; the text is whole when it is shorter than \<open>TSK_ERRSTR_L\<close>.
  Otherwise the code is \<open>TSK_ERR_IMG_UNKTYPE\<close> and both messages are empty.
\<close>

theorem undiagnosed_detection_stats_first_path:
  assumes "images = Some image0 # rest" and "a_ssize mod 512 = 0"
    and "HAVE_LIBAFFLIB cfg \<longrightarrow>
             fst (aff_open env images a_ssize no_error) = None
           \<or> (aff_open env images a_ssize no_error = (Some h0, no_error)
               \<and> itype h0 = TSK_IMG_TYPE_AFF_ANY)"
    and "HAVE_LIBEWF cfg \<longrightarrow>
           fst (ewf_open env (int (length images)) images a_ssize no_error) = None"
    and "(if int (length images) = 1 then raw_open env image0 a_ssize no_error
          else split_open env (int (length images)) images a_ssize no_error) = (None, c)"
    and "tsk_errno c = TSK_ERR_NONE"
  shows "fst (tsk_img_open cfg env images TSK_IMG_TYPE_DETECT a_ssize s) = None
    \<and> ctx (snd (tsk_img_open cfg env images TSK_IMG_TYPE_DETECT a_ssize s))
        = (if TSTAT env image0 < 0
              \<and> \<not> ((TSK_WIN32 cfg \<or> CYGWIN cfg) \<and> take 4 image0 = windows_object_prefix)
           then \<lparr>tsk_errno = TSK_ERR_IMG_STAT,
                 tsk_errstr = take (TSK_ERRSTR_L cfg - 1)
                                (image0 @ '' : '' @ strerror_errno env image0),
                 tsk_errstr2 = []\<rparr>
           else \<lparr>tsk_errno = TSK_ERR_IMG_UNKTYPE, tsk_errstr = [], tsk_errstr2 = []\<rparr>)
    \<and> (length (image0 @ '' : '' @ strerror_errno env image0) < TSK_ERRSTR_L cfg \<longrightarrow>
          take (TSK_ERRSTR_L cfg - 1) (image0 @ '' : '' @ strerror_errno env image0)
            = image0 @ '' : '' @ strerror_errno env image0)
    \<and> (\<exists>evs. trace (snd (tsk_img_open cfg env images TSK_IMG_TYPE_DETECT a_ssize s))
                = trace s @ evs @ [Tstat image0])"
proof -
  let ?n = "int (length images)"
  let ?s0 = "tsk_error_reset (tsk_error_reset s)"
  have c0: "ctx ?s0 = no_error" by (rule ctx_reset)
  obtain s1 where A: "detect_aff cfg env images a_ssize ?s0 = (None, s1)"
    and c1: "ctx s1 = no_error" and t1: "\<exists>evs. trace s1 = trace s @ evs"
    using detect_aff_no_match [OF assms(3) c0] by (auto simp: trace_reset)
  obtain s2 where E: "detect_ewf cfg env ?n images a_ssize (None, s1) = Inr (None, s2)"
    and c2: "ctx s2 = no_error" and t2: "\<exists>evs. trace s2 = trace s1 @ evs"
    using detect_ewf_no_match [OF assms(4) c1] by auto
  obtain s3 where R: "detect_raw env ?n images image0 a_ssize s2 = Inr s3"
    and t3: "\<exists>ev. trace s3 = trace s2 @ [ev]"
    using detect_raw_undiagnosed [OF assms(5,6) c2] by auto
  have eq: "tsk_img_open cfg env images TSK_IMG_TYPE_DETECT a_ssize s
      = detect_stat cfg env image0 s3"
    by (simp add: tsk_img_open_valid [OF assms(2,1)] detect_def A E R)
  have tr: "\<exists>evs. trace s3 @ [Tstat image0] = trace s @ evs @ [Tstat image0]"
    using t1 t2 t3 by auto
  show ?thesis
    unfolding eq detect_stat_result using tr by simp
qed

theorem undiagnosed_detection_stats_first_path_witness:
  "[Some ''image.dd''] = Some ''image.dd'' # [] \<and> (0 :: 32 word) mod 512 = 0
   \<and> HAVE_LIBAFFLIB sample_build \<and> HAVE_LIBEWF sample_build
   \<and> aff_open (sample_backends (sample_probe (Some h_any) TSK_ERR_NONE)
          (sample_probe None (TSK_ERR_OTHER 5)) silent silent (- 1))
        [Some ''image.dd''] 0 no_error = (Some h_any, no_error)
   \<and> itype h_any = TSK_IMG_TYPE_AFF_ANY
   \<and> fst (ewf_open (sample_backends (sample_probe (Some h_any) TSK_ERR_NONE)
          (sample_probe None (TSK_ERR_OTHER 5)) silent silent (- 1))
        (int (length [Some ''image.dd''])) [Some ''image.dd''] 0 no_error) = None
   \<and> raw_open (sample_backends (sample_probe (Some h_any) TSK_ERR_NONE)
          (sample_probe None (TSK_ERR_OTHER 5)) silent silent (- 1))
        ''image.dd'' 0 no_error = (None, no_error)
   \<and> tsk_errno no_error = TSK_ERR_NONE
   \<and> length (''image.dd'' @ '' : '' @ ''No such file or directory'') < TSK_ERRSTR_L sample_build
   \<and> fst (tsk_img_open sample_build (sample_backends (sample_probe (Some h_any) TSK_ERR_NONE)
          (sample_probe None (TSK_ERR_OTHER 5)) silent silent (- 1))
        [Some ''image.dd''] TSK_IMG_TYPE_DETECT 0 start_state) = None
   \<and> ctx (snd (tsk_img_open sample_build (sample_backends (sample_probe (Some h_any) TSK_ERR_NONE)
          (sample_probe None (TSK_ERR_OTHER 5)) silent silent (- 1))
        [Some ''image.dd''] TSK_IMG_TYPE_DETECT 0 start_state))
      = \<lparr>tsk_errno = TSK_ERR_IMG_STAT,
          tsk_errstr = ''image.dd : No such file or directory'', tsk_errstr2 = []\<rparr>
   \<and> ctx (snd (tsk_img_open sample_build (sample_backends (sample_probe (Some h_any) TSK_ERR_NONE)
          (sample_probe None (TSK_ERR_OTHER 5)) silent silent 0)
        [Some ''image.dd''] TSK_IMG_TYPE_DETECT 0 start_state))
      = \<lparr>tsk_errno = TSK_ERR_IMG_UNKTYPE, tsk_errstr = [], tsk_errstr2 = []\<rparr>"
  using undiagnosed_detection_stats_first_path [where images = "[Some ''image.dd'']"
      and ?image0.0 = "''image.dd''" and rest = "[]" and a_ssize = 0 and cfg = sample_build
      and env = "sample_backends (sample_probe (Some h_any) TSK_ERR_NONE)
          (sample_probe None (TSK_ERR_OTHER 5)) silent silent (- 1)"
      and ?h0.0 = h_any and c = no_error and s = start_state]
    undiagnosed_detection_stats_first_path [where images = "[Some ''image.dd'']"
      and ?image0.0 = "''image.dd''" and rest = "[]" and a_ssize = 0 and cfg = sample_build
      and env = "sample_backends (sample_probe (Some h_any) TSK_ERR_NONE)
          (sample_probe None (TSK_ERR_OTHER 5)) silent silent 0"
      and ?h0.0 = h_any and c = no_error and s = start_state]
  by (simp add: sample_defs)

text \<open>
  A first path of 600 characters that cannot be stat'ed, with a message buffer of 512
  characters: the message is the first 511 characters of the path, and holds neither the
  whole path nor the reason string.
\<close>

theorem long_path_stat_message_counterexample:
  "tsk_errno (ctx (snd (tsk_img_open sample_build
        (sample_backends silent silent silent silent (- 1))
        [Some (replicate 600 (CHR ''a''))] TSK_IMG_TYPE_DETECT 0 start_state)))
      = TSK_ERR_IMG_STAT
   \<and> tsk_errstr (ctx (snd (tsk_img_open sample_build
        (sample_backends silent silent silent silent (- 1))
        [Some (replicate 600 (CHR ''a''))] TSK_IMG_TYPE_DETECT 0 start_state)))
      = replicate 511 (CHR ''a'')
   \<and> \<not> sublist ''No such file or directory'' (tsk_errstr (ctx (snd (tsk_img_open sample_build
        (sample_backends silent silent silent silent (- 1))
        [Some (replicate 600 (CHR ''a''))] TSK_IMG_TYPE_DETECT 0 start_state))))
   \<and> \<not> sublist (replicate 600 (CHR ''a'')) (tsk_errstr (ctx (snd (tsk_img_open sample_build
        (sample_backends silent silent silent silent (- 1))
        [Some (replicate 600 (CHR ''a''))] TSK_IMG_TYPE_DETECT 0 start_state))))"
proof -
  let ?r = "tsk_img_open sample_build (sample_backends silent silent silent silent (- 1))
        [Some (replicate 600 (CHR ''a''))] TSK_IMG_TYPE_DETECT 0 start_state"
  have e: "ctx (snd ?r) = \<lparr>tsk_errno = TSK_ERR_IMG_STAT, tsk_errstr = replicate 511 (CHR ''a''),
      tsk_errstr2 = []\<rparr>"
    by (simp add: tsk_img_open_def detect_def detect_aff_def detect_ewf_def detect_raw_def
      detect_stat_def call_defs state_defs sample_defs Let_def)
  have n1: "\<not> sublist ''No such file or directory'' (replicate 511 (CHR ''a''))"
  proof
    assume "sublist ''No such file or directory'' (replicate 511 (CHR ''a''))"
    then have "set ''No such file or directory'' \<subseteq> set (replicate 511 (CHR ''a''))"
      by (rule set_mono_sublist)
    then show False by simp
  qed
  have n2: "\<not> sublist (replicate 600 (CHR ''a'')) (replicate 511 (CHR ''a''))"
  proof
    assume "sublist (replicate 600 (CHR ''a'')) (replicate 511 (CHR ''a''))"
    then have "length (replicate 600 (CHR ''a'')) \<le> length (replicate 511 (CHR ''a''))"
      by (rule sublist_length_le)
    then show False by simp
  qed
  from e n1 n2 show ?thesis by simp
qed

text \<open>
  C9. In the UTF-8 entry point of a \<open>TSK_WIN32\<close> build, when the buffers are
  allocated and every path before \<open>p\<close> converts, a failing conversion of \<open>p\<close> makes
  the call return no handle with the code \<open>TSK_ERR_IMG_CONVERT\<close>. The primary message
  is the text "tsk_img_open_utf8: Error converting image", the path and the status code
  of the converter, cut to the \<open>TSK_ERRSTR_L - 1\<close> characters that the buffer holds; it
  is whole when it is shorter than \<open>TSK_ERRSTR_L\<close>. The calls of the whole call are
  the conversions up to \<open>p\<close>: no later path is converted and no backend is called.
\<close>

theorem utf8_conversion_failure:
  assumes "TSK_WIN32 cfg" and "0 < TSK_ERRSTR_L cfg"
    and "images = map Some pre @ Some p # post"
    and "\<forall>k \<le> Suc (length pre). \<forall>c. fst (tsk_malloc env k c)"
    and "\<forall>q \<in> set pre. fst (tsk_UTF8toUTF16 env q) = TSKconversionOK"
    and "fst (tsk_UTF8toUTF16 env p) = retval2" and "retval2 \<noteq> TSKconversionOK"
  shows "\<exists>s'. tsk_img_open_utf8 cfg env images type a_ssize s = Some (None, s')
      \<and> tsk_errno (ctx s') = TSK_ERR_IMG_CONVERT
      \<and> tsk_errstr (ctx s')
          = take (TSK_ERRSTR_L cfg - 1)
              (''tsk_img_open_utf8: Error converting image '' @ p @ '' ''
                 @ print_d (conversion_value cfg retval2))
      \<and> (length (''tsk_img_open_utf8: Error converting image '' @ p @ '' ''
                 @ print_d (conversion_value cfg retval2)) < TSK_ERRSTR_L cfg \<longrightarrow>
           tsk_errstr (ctx s')
             = ''tsk_img_open_utf8: Error converting image '' @ p @ '' ''
                 @ print_d (conversion_value cfg retval2))
      \<and> trace s' = trace s @ map UTF8toUTF16 (pre @ [p])"
proof -
  have "fst (tsk_malloc env 0 (ctx s))" using assms(4) by simp
  then obtain c0 where m0: "tsk_malloc env 0 (ctx s) = (True, c0)"
    by (cases "tsk_malloc env 0 (ctx s)") simp
  have al: "\<forall>k. 0 < k \<and> k \<le> 0 + Suc (length pre) \<longrightarrow> (\<forall>c. fst (tsk_malloc env k c))"
    using assms(4) by simp
  obtain c' where L: "utf8_loop cfg env 0 (map Some pre @ Some p # post) [] (s\<lparr>ctx := c0\<rparr>)
      = Some (None,
               snprintf_errstr cfg
                 (''tsk_img_open_utf8: Error converting image '' @ p @ '' ''
                    @ print_d (conversion_value cfg retval2))
                 (set_errno TSK_ERR_IMG_CONVERT
                   \<lparr>ctx = c', trace = trace (s\<lparr>ctx := c0\<rparr>) @ map UTF8toUTF16 (pre @ [p])\<rparr>))"
    using utf8_loop_conversion_fails [OF al assms(5,6,7)] by blast
  show ?thesis
    using assms(1,2) m0 L
    by (simp add: tsk_img_open_utf8_def assms(3) snprintf_errstr_def set_errno_def)
qed

theorem utf8_conversion_failure_witness:
  "TSK_WIN32 (sample_build\<lparr>TSK_WIN32 := True\<rparr>)
   \<and> 0 < TSK_ERRSTR_L (sample_build\<lparr>TSK_WIN32 := True\<rparr>)
   \<and> [Some ''a.001'', Some [CHR ''a'', CHR 0xFF], Some ''a.003'']
        = map Some [''a.001''] @ Some [CHR ''a'', CHR 0xFF] # [Some ''a.003'']
   \<and> (\<forall>k c. fst (tsk_malloc (sample_backends silent silent silent silent 0) k c))
   \<and> fst (tsk_UTF8toUTF16 (sample_backends silent silent silent silent 0) ''a.001'')
        = TSKconversionOK
   \<and> fst (tsk_UTF8toUTF16 (sample_backends silent silent silent silent 0) [CHR ''a'', CHR 0xFF])
        = TSKsourceIllegal
   \<and> TSKsourceIllegal \<noteq> TSKconversionOK
   \<and> tsk_img_open_utf8 (sample_build\<lparr>TSK_WIN32 := True\<rparr>)
        (sample_backends silent silent silent silent 0)
        [Some ''a.001'', Some [CHR ''a'', CHR 0xFF], Some ''a.003''] TSK_IMG_TYPE_DETECT 0 start_state
      = Some (None,
          \<lparr>ctx = \<lparr>tsk_errno = TSK_ERR_IMG_CONVERT,
                  tsk_errstr = ''tsk_img_open_utf8: Error converting image '' @ [CHR ''a'', CHR 0xFF] @ '' 3'',
                  tsk_errstr2 = []\<rparr>,
           trace = [UTF8toUTF16 ''a.001'', UTF8toUTF16 [CHR ''a'', CHR 0xFF]]\<rparr>)"
proof -
  let ?cfg = "sample_build\<lparr>TSK_WIN32 := True\<rparr>"
  let ?env = "sample_backends silent silent silent silent 0"
  let ?images = "[Some ''a.001'', Some [CHR ''a'', CHR 0xFF], Some ''a.003'']"
  have h1: "TSK_WIN32 ?cfg" by simp
  have h2: "0 < TSK_ERRSTR_L ?cfg" by (simp add: sample_build_def)
  have h3: "?images = map Some [''a.001''] @ Some [CHR ''a'', CHR 0xFF] # [Some ''a.003'']"
    by simp
  have h4: "\<forall>k \<le> Suc (length [''a.001'']). \<forall>c. fst (tsk_malloc ?env k c)"
    by (simp add: sample_backends_def)
  have h5: "\<forall>q \<in> set [''a.001'']. fst (tsk_UTF8toUTF16 ?env q) = TSKconversionOK"
    by (simp add: sample_backends_def)
  have h6: "fst (tsk_UTF8toUTF16 ?env [CHR ''a'', CHR 0xFF]) = TSKsourceIllegal"
    by (simp add: sample_backends_def)
  have h7: "TSKsourceIllegal \<noteq> TSKconversionOK" by simp
  from utf8_conversion_failure [OF h1 h2 h3 h4 h5 h6 h7, of TSK_IMG_TYPE_DETECT 0 start_state]
  obtain s' where r: "tsk_img_open_utf8 ?cfg ?env ?images TSK_IMG_TYPE_DETECT 0 start_state
      = Some (None, s')"
    and e: "tsk_errno (ctx s') = TSK_ERR_IMG_CONVERT"
    and t: "trace s' = trace start_state @ map UTF8toUTF16 ([''a.001''] @ [[CHR ''a'', CHR 0xFF]])"
    by blast
  have v: "tsk_img_open_utf8 ?cfg ?env ?images TSK_IMG_TYPE_DETECT 0 start_state
      = Some (None,
          \<lparr>ctx = \<lparr>tsk_errno = TSK_ERR_IMG_CONVERT,
                  tsk_errstr = ''tsk_img_open_utf8: Error converting image '' @ [CHR ''a'', CHR 0xFF] @ '' 3'',
                  tsk_errstr2 = []\<rparr>,
           trace = [UTF8toUTF16 ''a.001'', UTF8toUTF16 [CHR ''a'', CHR 0xFF]]\<rparr>)"
    using r e t
    by (simp add: tsk_img_open_utf8_def state_defs sample_defs Let_def print_d_def
        dec_nat.simps digit_char_def)
  have g4: "\<forall>k c. fst (tsk_malloc ?env k c)"
    by (simp add: sample_backends_def)
  have g5: "fst (tsk_UTF8toUTF16 ?env ''a.001'') = TSKconversionOK"
    by (simp add: sample_backends_def)
  from h1 h2 h3 g4 g5 h6 h7 v show ?thesis by (intro conjI)
qed

text \<open>
  A path of 600 characters that does not convert, with a message buffer of 512
  characters: the message ends inside the path, and holds neither the whole path nor
  the status code 3.
\<close>

theorem long_path_convert_message_counterexample:
  "tsk_img_open_utf8 (sample_build\<lparr>TSK_WIN32 := True\<rparr>)
        (sample_backends silent silent silent silent 0)
        [Some (replicate 600 (CHR 0xFF))] TSK_IMG_TYPE_DETECT 0 start_state
      = Some (None,
          \<lparr>ctx = \<lparr>tsk_errno = TSK_ERR_IMG_CONVERT,
                  tsk_errstr = ''tsk_img_open_utf8: Error converting image ''
                                 @ replicate 469 (CHR 0xFF),
                  tsk_errstr2 = []\<rparr>,
           trace = [UTF8toUTF16 (replicate 600 (CHR 0xFF))]\<rparr>)
   \<and> conversion_value (sample_build\<lparr>TSK_WIN32 := True\<rparr>)
        (fst (tsk_UTF8toUTF16 (sample_backends silent silent silent silent 0)
               (replicate 600 (CHR 0xFF)))) = 3
   \<and> CHR ''3'' \<notin> set (''tsk_img_open_utf8: Error converting image '' @ replicate 469 (CHR 0xFF))
   \<and> length (''tsk_img_open_utf8: Error converting image '' @ replicate 469 (CHR 0xFF))
        < length (replicate 600 (CHR 0xFF))"
  by (simp add: tsk_img_open_utf8_def state_defs sample_defs Let_def print_d_def
        dec_nat.simps digit_char_def)

end
